theory Spec2Isabelle
  imports Main "HOL-Library.Sublist"
begin

unbundle bit_operations_syntax

section \<open>JavaScript values and paths\<close>

text \<open>
  The values that \<^verbatim>\<open>ini.parse\<close> produces and that end up in the fields of a
  descriptor at run time. The TypeScript types say \<^verbatim>\<open>string\<close>, but a property
  read on an object that lacks the key yields \<^verbatim>\<open>undefined\<close>, so the fields
  are modelled with the run-time values.
\<close>

datatype jsval =
    Undefined
  | Null
  | Bool bool
  | Str string
  | Arr "jsval list"
  | Obj "(string \<times> jsval) list"

datatype js_error = TypeError | AssertionError | ExecError

text \<open>\<^verbatim>\<open>v[key]\<close> for one of the fixed, non-numeric keys the program uses.\<close>

fun get_prop :: "jsval \<Rightarrow> string \<Rightarrow> js_error + jsval" where
  "get_prop Undefined k = Inl TypeError"
| "get_prop Null k = Inl TypeError"
| "get_prop (Obj kvs) k = (case map_of kvs k of None \<Rightarrow> Inr Undefined | Some v \<Rightarrow> Inr v)"
| "get_prop (Bool b) k = Inr Undefined"
| "get_prop (Str s) k = Inr Undefined"
| "get_prop (Arr vs) k = Inr Undefined"

text \<open>\<^verbatim>\<open>key in v\<close>: a TypeError unless the right operand is an object.\<close>

fun has_prop :: "string \<Rightarrow> jsval \<Rightarrow> js_error + bool" where
  "has_prop k (Obj kvs) = Inr (map_of kvs k \<noteq> None)"
| "has_prop k (Arr vs) = Inr False"
| "has_prop k Undefined = Inl TypeError"
| "has_prop k Null = Inl TypeError"
| "has_prop k (Bool b) = Inl TypeError"
| "has_prop k (Str s) = Inl TypeError"

text \<open>
  Node's POSIX \<^verbatim>\<open>path.join\<close>: the non-empty arguments are joined with a slash
  and the result is normalised (empty and \<^verbatim>\<open>.\<close> segments dropped, \<^verbatim>\<open>..\<close>
  resolved against the segment before it).
\<close>

fun split_on :: "char \<Rightarrow> string \<Rightarrow> string list" where
  "split_on c [] = [] # []"
| "split_on c (x # xs) =
     (if x = c then [] # split_on c xs
      else (case split_on c xs of
              [] \<Rightarrow> [x] # []
            | s # ss \<Rightarrow> (x # s) # ss))"

fun join_with :: "string \<Rightarrow> string list \<Rightarrow> string" where
  "join_with sep [] = []"
| "join_with sep [s] = s"
| "join_with sep (s # t # ss) = s @ sep @ join_with sep (t # ss)"

fun normalizeString :: "bool \<Rightarrow> string list \<Rightarrow> string list \<Rightarrow> string list" where
  "normalizeString allowAboveRoot acc [] = rev acc"
| "normalizeString allowAboveRoot acc (seg # rest) =
     (if seg = [] \<or> seg = ''.'' then normalizeString allowAboveRoot acc rest
      else if seg = ''..'' then
        (case acc of
           [] \<Rightarrow> normalizeString allowAboveRoot (if allowAboveRoot then [''..''] else []) rest
         | a # acc' \<Rightarrow>
             if a = ''..''
             then normalizeString allowAboveRoot (if allowAboveRoot then ''..'' # acc else acc) rest
             else normalizeString allowAboveRoot acc' rest)
      else normalizeString allowAboveRoot (seg # acc) rest)"

definition path_normalize :: "string \<Rightarrow> string" where
  "path_normalize p =
     (if p = [] then ''.''
      else
        let isAbsolute = (hd p = CHR ''/'');
            trailingSeparator = (last p = CHR ''/'');
            body = join_with ''/'' (normalizeString (\<not> isAbsolute) [] (split_on CHR ''/'' p))
        in if body = [] then (if isAbsolute then ''/'' else if trailingSeparator then ''./'' else ''.'')
           else (if isAbsolute then ''/'' else []) @ body @ (if trailingSeparator then ''/'' else []))"

definition path_join :: "string list \<Rightarrow> string" where
  "path_join parts =
     (let ps = filter (\<lambda>p. p \<noteq> []) parts
      in if ps = [] then ''.'' else path_normalize (join_with ''/'' ps))"

text \<open>Decimal rendering of a number inside a template string.\<close>

function show_nat :: "nat \<Rightarrow> string" where
  "show_nat n =
     (if n < 10 then [''0123456789'' ! n]
      else show_nat (n div 10) @ [''0123456789'' ! (n mod 10)])"
  by pat_completeness auto
termination
  by (relation "measure id") auto

section \<open>Descriptors\<close>

datatype SDKKind = Environment | Custom | Internal

record SDKFields =
  kind :: SDKKind
  version :: jsval
  lspPath :: jsval
  mblackPath :: jsval
  lldbPluginPath :: jsval
  dapPath :: jsval
  mojoPath :: jsval
  visualizersPath :: jsval
  lldbPath :: jsval

text \<open>
  Class \<^verbatim>\<open>SDK\<close> and its subclass \<^verbatim>\<open>HomeSDK\<close>, which adds the home path and the
  optional prefix path.
\<close>

datatype SDK =
    BaseSDK SDKFields
  | HomeSDK SDKFields string "string option"

fun fields_of :: "SDK \<Rightarrow> SDKFields" where
  "fields_of (BaseSDK f) = f"
| "fields_of (HomeSDK f h p) = f"

fun supportsFileDebug :: "SDK \<Rightarrow> bool" where
  "supportsFileDebug (BaseSDK f) = False"
| "supportsFileDebug (HomeSDK f h p) = True"

text \<open>
  \<^verbatim>\<open>getProcessEnv\<close>: the object literal, as its keys in order with their values. A
  key whose value is \<^verbatim>\<open>undefined\<close> is still a key of the object.
\<close>

definition SDK_getProcessEnv :: "bool \<Rightarrow> (string \<times> jsval) list" where
  "SDK_getProcessEnv withTelemetry =
     [(''MODULAR_TELEMETRY_ENABLED'', Str (if withTelemetry then ''true'' else ''false''))]"

fun getProcessEnv :: "SDK \<Rightarrow> bool \<Rightarrow> (string \<times> jsval) list" where
  "getProcessEnv (BaseSDK f) withTelemetry = SDK_getProcessEnv withTelemetry"
| "getProcessEnv (HomeSDK f homePath prefixPath) withTelemetry =
     SDK_getProcessEnv withTelemetry @
     [(''MODULAR_HOME'', Str homePath),
      (''CONDA_PREFIX'', (case prefixPath of None \<Rightarrow> Undefined | Some p \<Rightarrow> Str p))]"

section \<open>The environment manager\<close>

text \<open>
  What the program does to the outside world, in the order it does it. Log lines are
  left out; everything else the manager calls is an event.
\<close>

datatype event =
    FsStat string
  | FsReadFile string
  | FileExists string
  | GetActiveEnvironmentPath
  | ResolveEnvironment string
  | ShowErrorMessage string
  | FireEnvChange
  | SendTelemetry string jsval SDKKind
  | Exec string
  | ExecFile string "string list"

record ResolvedEnvironment =
  sysPrefix :: string
  env_version :: "(nat \<times> nat) option"

text \<open>
  The outside world as the manager reads it. \<open>fs_stat\<close> gives the file type bits
  (File = 1, Directory = 2, SymbolicLink = 64), \<open>None\<close> when the call throws;
  \<open>fs_readFile\<close> gives the bytes or the error; \<open>decode\<close> and \<open>ini_parse\<close> are the text
  decoder and the INI parser, \<open>None\<close> when they throw; \<open>exec\<close> and \<open>execFile\<close> give
  stdout and stderr, \<open>None\<close> when the promise rejects. \<open>fileExists\<close> is the helper of
  \<^verbatim>\<open>utils/files\<close> and \<open>formatting_args\<close> the configured value read through
  \<^verbatim>\<open>utils/config\<close>, both taken as parameters. \<open>run_formatter\<close> is the formatter
  subprocess: from the executable, its arguments and its standard input to the three
  arguments of the callback (whether there is an error, stdout, stderr).
\<close>

record world =
  workspaceFolders :: "string list option"
  fs_stat :: "string \<Rightarrow> nat option"
  fs_readFile :: "string \<Rightarrow> string + nat list"
  decode :: "nat list \<Rightarrow> string option"
  ini_parse :: "string \<Rightarrow> (string \<times> jsval) list option"
  fileExists :: "string \<Rightarrow> bool"
  activeEnvironmentPath :: string
  resolveEnvironment :: "string \<Rightarrow> ResolvedEnvironment option"
  platform :: string
  exec :: "string \<Rightarrow> (string \<times> string) option"
  execFile :: "string \<Rightarrow> string list \<Rightarrow> (string \<times> string) option"
  formatting_args :: "string list"
  run_formatter :: "string \<Rightarrow> string list \<Rightarrow> string \<Rightarrow> bool \<times> string \<times> string"

text \<open>
  The fields of \<^verbatim>\<open>PythonEnvironmentManager\<close>. \<open>api_init\<close> says that \<^verbatim>\<open>init()\<close> has
  set \<^verbatim>\<open>this.api\<close>; \<open>trace\<close> collects the events.
\<close>

record manager =
  api_init :: bool
  displayedSDKError :: bool
  lastLoadedEnv :: "string option"
  activeSDK :: "SDK option"
  trace :: "event list"

definition emit :: "event list \<Rightarrow> manager \<Rightarrow> manager" where
  "emit es s = s\<lparr>trace := trace s @ es\<rparr>"

definition displaySDKError :: "string \<Rightarrow> manager \<Rightarrow> manager" where
  "displaySDKError message s =
     (if displayedSDKError s then s
      else emit [ShowErrorMessage message] (s\<lparr>displayedSDKError := True\<rparr>))"

text \<open>
  \<^verbatim>\<open>newEnv != this.lastLoadedEnv\<close> compares a string with a string or with
  \<^verbatim>\<open>undefined\<close>; a string never equals \<^verbatim>\<open>undefined\<close>.
\<close>

definition handleEnvironmentChange :: "string \<Rightarrow> manager \<Rightarrow> manager" where
  "handleEnvironmentChange newEnv s =
     (if Some newEnv \<noteq> lastLoadedEnv s
      then (emit [FireEnvChange] s)\<lparr>displayedSDKError := False\<rparr>
      else s)"


subsection \<open>Home-path construction\<close>

definition bind_err :: "js_error + 'a \<Rightarrow> ('a \<Rightarrow> js_error + 'b) \<Rightarrow> js_error + 'b" where
  "bind_err m f = (case m of Inl e \<Rightarrow> Inl e | Inr v \<Rightarrow> f v)"

text \<open>\<^verbatim>\<open>'version' in config.max ? config.max.version : '0.0.0'\<close>\<close>

definition readVersion :: "(string \<times> jsval) list \<Rightarrow> js_error + jsval" where
  "readVersion config =
     bind_err (get_prop (Obj config) ''max'') (\<lambda>mx.
     bind_err (has_prop ''version'' mx) (\<lambda>present.
       if present then get_prop mx ''version'' else Inr (Str ''0.0.0'')))"

text \<open>\<^verbatim>\<open>config['mojo-max'][key]\<close>\<close>

definition mojoMax :: "(string \<times> jsval) list \<Rightarrow> string \<Rightarrow> js_error + jsval" where
  "mojoMax config key = bind_err (get_prop (Obj config) ''mojo-max'') (\<lambda>sec. get_prop sec key)"

text \<open>The \<^verbatim>\<open>new HomeSDK(...)\<close> expression, its arguments evaluated left to right.\<close>

definition newHomeSDK ::
  "SDKKind \<Rightarrow> jsval \<Rightarrow> string \<Rightarrow> (string \<times> jsval) list \<Rightarrow> string option \<Rightarrow> js_error + SDK" where
  "newHomeSDK k ver homePath config prefixPath =
     bind_err (mojoMax config ''lsp_server_path'') (\<lambda>lsp.
     bind_err (mojoMax config ''mblack_path'') (\<lambda>mblack.
     bind_err (mojoMax config ''lldb_plugin_path'') (\<lambda>plugin.
     bind_err (mojoMax config ''lldb_vscode_path'') (\<lambda>dap.
     bind_err (mojoMax config ''driver_path'') (\<lambda>mojo.
     bind_err (mojoMax config ''lldb_visualizers_path'') (\<lambda>vis.
     bind_err (mojoMax config ''lldb_path'') (\<lambda>lldb.
       Inr (HomeSDK \<lparr>kind = k, version = ver, lspPath = lsp, mblackPath = mblack,
                     lldbPluginPath = plugin, dapPath = dap, mojoPath = mojo,
                     visualizersPath = vis, lldbPath = lldb\<rparr> homePath prefixPath))))))))"

definition msg_read :: string where
  "msg_read = ''Unable to read modular.cfg: ''"

definition msg_decode :: string where
  "msg_decode = ''Unable to decode modular.cfg; your MAX installation may be corrupted.''"

definition msg_parse :: string where
  "msg_parse = ''Unable to parse modular.cfg; your MAX installation may be corrupted.''"

definition msg_key :: string where
  "msg_key = ''Unable to read a configuration key from modular.cfg; your MAX installation may be corrupted.''"

definition msg_env :: string where
  "msg_env = ''Unable to load a Python enviroment from the VS Code Python extension.''"

definition createSDKFromHomePath ::
  "SDKKind \<Rightarrow> string \<Rightarrow> string option \<Rightarrow> world \<Rightarrow> manager \<Rightarrow> SDK option \<times> manager" where
  "createSDKFromHomePath k homePath prefixPath w s =
     (let modularCfgPath = path_join [homePath, ''modular.cfg''];
          s1 = emit [FsReadFile modularCfgPath] s
      in case fs_readFile w modularCfgPath of
           Inl e \<Rightarrow> (None, displaySDKError (msg_read @ e) s1)
         | Inr bytes \<Rightarrow>
            (case decode w bytes of
               None \<Rightarrow> (None, displaySDKError msg_decode s1)
             | Some contents \<Rightarrow>
                (case ini_parse w contents of
                   None \<Rightarrow> (None, displaySDKError msg_parse s1)
                 | Some config \<Rightarrow>
                    (case readVersion config of
                       Inl e \<Rightarrow> (None, displaySDKError msg_key s1)
                     | Inr ver \<Rightarrow>
                        (let s2 = emit [SendTelemetry ''sdkLoaded'' ver k] s1
                         in case newHomeSDK k ver homePath config prefixPath of
                              Inl e \<Rightarrow> (None, displaySDKError msg_key s2)
                            | Inr sdk \<Rightarrow> (Some sdk, s2))))))"

subsection \<open>The workspace-local source\<close>

text \<open>
  A workspace folder is given by the path of its URI; \<^verbatim>\<open>Uri.joinPath\<close> followed by
  \<^verbatim>\<open>fsPath\<close> is the path join.
\<close>

definition tryGetMonorepoSDK :: "world \<Rightarrow> manager \<Rightarrow> SDK option \<times> manager" where
  "tryGetMonorepoSDK w s =
     (case workspaceFolders w of
        None \<Rightarrow> (None, s)
      | Some folders \<Rightarrow>
          if length folders \<noteq> 1 then (None, s)
          else
            let folder = path_join [folders ! 0, ''.derived''];
                s1 = emit [FsStat folder] s
            in case fs_stat w folder of
                 None \<Rightarrow> (None, s1)
               | Some ty \<Rightarrow>
                   if ty AND 2 \<noteq> 0
                   then createSDKFromHomePath Internal folder None w s1
                   else (None, s1))"

subsection \<open>The packaged-distribution source\<close>

definition retrievePath :: "world \<Rightarrow> string \<Rightarrow> manager \<Rightarrow> string option \<times> manager" where
  "retrievePath w target s =
     (case fs_stat w target of
        Some ty \<Rightarrow> (Some target, emit [FsStat target] s)
      | None \<Rightarrow> (None, emit [FsStat target] s))"

text \<open>\<^verbatim>\<open>!p\<close> for a value that is a string or \<^verbatim>\<open>undefined\<close>.\<close>

definition falsy :: "string option \<Rightarrow> bool" where
  "falsy p = (case p of None \<Rightarrow> True | Some t \<Rightarrow> t = [])"

definition wheel_binPath :: "ResolvedEnvironment \<Rightarrow> string" where
  "wheel_binPath env = path_join [sysPrefix env, ''bin'']"

definition wheel_libPath :: "ResolvedEnvironment \<Rightarrow> nat \<times> nat \<Rightarrow> string" where
  "wheel_libPath env v =
     path_join [sysPrefix env, ''lib'', ''python'' @ show_nat (fst v) @ ''.'' @ show_nat (snd v),
                ''site-packages'', ''modular'', ''lib'']"

definition libExt :: "world \<Rightarrow> string" where
  "libExt w = (if platform w = ''darwin'' then ''dylib'' else ''so'')"

definition version_command :: "string \<Rightarrow> string" where
  "version_command mojo = [CHR 0x22] @ mojo @ [CHR 0x22] @ '' --version''"

text \<open>The paths the construction asks for, in the order it asks.\<close>

definition wheel_targets :: "world \<Rightarrow> ResolvedEnvironment \<Rightarrow> nat \<times> nat \<Rightarrow> string list" where
  "wheel_targets w env v =
     [path_join [wheel_binPath env, ''mojo''],
      path_join [wheel_binPath env, ''mojo-lsp-server''],
      path_join [wheel_libPath env v, ''libMojoLLDB.'' @ libExt w],
      path_join [wheel_binPath env, ''mblack''],
      path_join [wheel_binPath env, ''lldb-dap''],
      path_join [wheel_libPath env v, ''lldb-visualizers''],
      path_join [wheel_binPath env, ''mojo-lldb''],
      path_join [wheel_libPath env v, ''..'', ''bin'', ''mojo'']]"

definition createSDKFromWheelEnv ::
  "ResolvedEnvironment \<Rightarrow> world \<Rightarrow> manager \<Rightarrow> (js_error + SDK option) \<times> manager" where
  "createSDKFromWheelEnv env w s =
     (case env_version env of
        None \<Rightarrow> (Inl TypeError, s)
      | Some v \<Rightarrow>
         (let binPath = wheel_binPath env;
              libPath = wheel_libPath env v;
              (mojoP, s1) = retrievePath w (path_join [binPath, ''mojo'']) s;
              (lspP, s2) = retrievePath w (path_join [binPath, ''mojo-lsp-server'']) s1;
              (lldbPluginP, s3) = retrievePath w (path_join [libPath, ''libMojoLLDB.'' @ libExt w]) s2;
              (mblackP, s4) = retrievePath w (path_join [binPath, ''mblack'']) s3;
              (dapP, s5) = retrievePath w (path_join [binPath, ''lldb-dap'']) s4;
              (visualizerP, s6) = retrievePath w (path_join [libPath, ''lldb-visualizers'']) s5;
              (lldbP, s7) = retrievePath w (path_join [binPath, ''mojo-lldb'']) s6;
              (rawMojoP, s8) = retrievePath w (path_join [libPath, ''..'', ''bin'', ''mojo'']) s7
          in if falsy mojoP \<or> falsy lspP \<or> falsy lldbPluginP \<or> falsy rawMojoP \<or> falsy mblackP
                \<or> falsy lldbPluginP \<or> falsy dapP \<or> falsy visualizerP \<or> falsy lldbP
             then (Inr None, s8)
             else
               let cmd = version_command (the mojoP);
                   s9 = emit [Exec cmd] s8
               in case exec w cmd of
                    None \<Rightarrow> (Inl ExecError, s9)
                  | Some (out, err) \<Rightarrow>
                      (Inr (Some (BaseSDK \<lparr>kind = Environment, version = Str out,
                                 lspPath = Str (the lspP), mblackPath = Str (the mblackP),
                                 lldbPluginPath = Str (the lldbPluginP), dapPath = Str (the dapP),
                                 mojoPath = Str (the mojoP), visualizersPath = Str (the visualizerP),
                                 lldbPath = Str (the lldbP)\<rparr>)), s9)))"

subsection \<open>Resolution and its cache\<close>

definition envHasModularCfg :: "world \<Rightarrow> ResolvedEnvironment \<Rightarrow> bool" where
  "envHasModularCfg w env = fileExists w (path_join [sysPrefix env, ''share'', ''max'', ''modular.cfg''])"

definition findActiveSDK :: "world \<Rightarrow> manager \<Rightarrow> (js_error + SDK option) \<times> manager" where
  "findActiveSDK w s =
     (if \<not> api_init s then (Inl AssertionError, s)
      else
        case tryGetMonorepoSDK w s of
          (Some monorepoSDK, s1) \<Rightarrow> (Inr (Some monorepoSDK), s1)
        | (None, s1) \<Rightarrow>
           (let envPath = activeEnvironmentPath w;
                s2 = (emit [GetActiveEnvironmentPath, ResolveEnvironment envPath] s1)
                       \<lparr>lastLoadedEnv := Some envPath\<rparr>
            in case resolveEnvironment w envPath of
                 None \<Rightarrow> (Inr None, displaySDKError msg_env s2)
               | Some env \<Rightarrow>
                  (let s3 = emit [FileExists (path_join [sysPrefix env, ''share'', ''max'', ''modular.cfg''])] s2
                   in if envHasModularCfg w env
                      then (case createSDKFromHomePath Environment
                                   (path_join [sysPrefix env, ''share'', ''max''])
                                   (Some (sysPrefix env)) w s3 of
                              (r, s4) \<Rightarrow> (Inr r, s4))
                      else createSDKFromWheelEnv env w s3)))"

definition getActiveSDK :: "world \<Rightarrow> manager \<Rightarrow> (js_error + SDK option) \<times> manager" where
  "getActiveSDK w s =
     (case activeSDK s of
        Some sdk \<Rightarrow> (Inr (Some sdk), s)
      | None \<Rightarrow>
         (case findActiveSDK w s of
            (Inl e, s1) \<Rightarrow> (Inl e, s1)
          | (Inr r, s1) \<Rightarrow> (Inr r, s1\<lparr>activeSDK := r\<rparr>)))"


subsection \<open>Calls on the manager\<close>

text \<open>
  The ways the rest of the extension reaches the manager: the three public methods and
  the change event of the Python extension. Each call sees the world of its moment.
\<close>

datatype call =
    GetActiveSDK world
  | FindActiveSDK world
  | CreateSDKFromHomePath SDKKind string "string option" world
  | EnvironmentChange string

fun step :: "call \<Rightarrow> manager \<Rightarrow> manager" where
  "step (GetActiveSDK w) s = snd (getActiveSDK w s)"
| "step (FindActiveSDK w) s = snd (findActiveSDK w s)"
| "step (CreateSDKFromHomePath k h p w) s = snd (createSDKFromHomePath k h p w s)"
| "step (EnvironmentChange newEnv) s = handleEnvironmentChange newEnv s"

fun run :: "call list \<Rightarrow> manager \<Rightarrow> manager" where
  "run [] s = s"
| "run (c # cs) s = run cs (step c s)"

text \<open>An invalidation is a change event whose key differs from the last observed one.\<close>

fun invalidates :: "call \<Rightarrow> manager \<Rightarrow> bool" where
  "invalidates (EnvironmentChange newEnv) s = (Some newEnv \<noteq> lastLoadedEnv s)"
| "invalidates (GetActiveSDK w) s = False"
| "invalidates (FindActiveSDK w) s = False"
| "invalidates (CreateSDKFromHomePath k h p w) s = False"

fun invalidations :: "call list \<Rightarrow> manager \<Rightarrow> nat" where
  "invalidations [] s = 0"
| "invalidations (c # cs) s = (if invalidates c s then 1 else 0) + invalidations cs (step c s)"

fun is_dialog :: "event \<Rightarrow> bool" where
  "is_dialog (ShowErrorMessage m) = True"
| "is_dialog (FsStat p) = False"
| "is_dialog (FsReadFile p) = False"
| "is_dialog (FileExists p) = False"
| "is_dialog GetActiveEnvironmentPath = False"
| "is_dialog (ResolveEnvironment p) = False"
| "is_dialog FireEnvChange = False"
| "is_dialog (SendTelemetry n v k) = False"
| "is_dialog (Exec c) = False"
| "is_dialog (ExecFile p a) = False"

definition dialogs :: "manager \<Rightarrow> nat" where
  "dialogs s = length (filter is_dialog (trace s))"

text \<open>The dialogs shown so far, plus the one the flag still allows.\<close>

definition budget :: "manager \<Rightarrow> nat" where
  "budget s = dialogs s + (if displayedSDKError s then 0 else 1)"

definition notifications :: "manager \<Rightarrow> nat" where
  "notifications s = length (filter (\<lambda>e. e = FireEnvChange) (trace s))"

section \<open>The scripting-support probe\<close>

text \<open>\<^verbatim>\<open>s.indexOf(pat)\<close>: the first position at which \<open>pat\<close> occurs, or \<open>-1\<close>.\<close>

fun indexOf :: "string \<Rightarrow> string \<Rightarrow> int" where
  "indexOf [] pat = (if pat = [] then 0 else - 1)"
| "indexOf (c # cs) pat =
     (if prefix pat (c # cs) then 0
      else (let r = indexOf cs pat in if r = - 1 then - 1 else r + 1))"

definition lldb_probe_args :: "string list" where
  "lldb_probe_args = [''-b'', ''-o'', ''script print(100+1)'']"

text \<open>
  The body of \<^verbatim>\<open>lldbHasPythonScriptingSupport\<close>: its result and the subprocesses it
  starts. A path that is not a string makes \<^verbatim>\<open>execFile\<close> throw before anything is
  started; the \<^verbatim>\<open>catch\<close> turns every failure into \<^verbatim>\<open>false\<close>.
\<close>

definition probeScripting :: "world \<Rightarrow> SDK \<Rightarrow> bool \<times> event list" where
  "probeScripting w sdk =
     (case lldbPath (fields_of sdk) of
        Str p \<Rightarrow>
          (case execFile w p lldb_probe_args of
             None \<Rightarrow> (False, [ExecFile p lldb_probe_args])
           | Some (out, err) \<Rightarrow> (indexOf out ''101'' \<noteq> - 1, [ExecFile p lldb_probe_args]))
      | Undefined \<Rightarrow> (False, [])
      | Null \<Rightarrow> (False, [])
      | Bool b \<Rightarrow> (False, [])
      | Arr vs \<Rightarrow> (False, [])
      | Obj kvs \<Rightarrow> (False, []))"

text \<open>
  A descriptor instance with the slot the \<^verbatim>\<open>@Memoize()\<close> decorator keeps on it, and
  the subprocesses started on its behalf.
\<close>

record SDKInstance =
  descriptor :: SDK
  lldbMemo :: "bool option"
  spawned :: "event list"

definition lldbHasPythonScriptingSupport :: "world \<Rightarrow> SDKInstance \<Rightarrow> bool \<times> SDKInstance" where
  "lldbHasPythonScriptingSupport w inst =
     (case lldbMemo inst of
        Some r \<Rightarrow> (r, inst)
      | None \<Rightarrow>
          (let (r, es) = probeScripting w (descriptor inst)
           in (r, inst\<lparr>lldbMemo := Some r, spawned := spawned inst @ es\<rparr>)))"

fun probes :: "world list \<Rightarrow> SDKInstance \<Rightarrow> bool list \<times> SDKInstance" where
  "probes [] inst = ([], inst)"
| "probes (w # ws) inst =
     (let (r, inst1) = lldbHasPythonScriptingSupport w inst;
          (rs, inst2) = probes ws inst1
      in (r # rs, inst2))"

section \<open>The formatting provider\<close>

text \<open>
  A document is its text; lines are separated by line feeds. The range of the edit runs
  from the start of line 0 to the end of the last line.
\<close>

type_synonym position = "nat \<times> nat"
type_synonym TextEdit = "(position \<times> position) \<times> string"

definition documentRange :: "string \<Rightarrow> position \<times> position" where
  "documentRange text =
     (let ls = split_on CHR 0x0A text
      in ((0, 0), (length ls - 1, length (last ls))))"

definition formatter_args :: "world \<Rightarrow> string list" where
  "formatter_args w = [''--fast'', ''--preview'', ''--quiet'', ''-t'', ''mojo''] @ formatting_args w @ [''-'']"

definition provideDocumentFormattingEdits ::
  "world \<Rightarrow> string \<Rightarrow> manager \<Rightarrow> (js_error + TextEdit list) \<times> manager" where
  "provideDocumentFormattingEdits w originalDocumentText s =
     (case getActiveSDK w s of
        (Inl e, s1) \<Rightarrow> (Inl e, s1)
      | (Inr None, s1) \<Rightarrow> (Inr [], s1)
      | (Inr (Some sdk), s1) \<Rightarrow>
          (case mblackPath (fields_of sdk) of
             Str p \<Rightarrow>
               (let s2 = emit [ExecFile p (formatter_args w)] s1;
                    (err, out, errout) = run_formatter w p (formatter_args w) originalDocumentText
                in if err then (Inl ExecError, s2)
                   else if length originalDocumentText > 0 \<and> length out = 0 then (Inr [], s2)
                   else (Inr [(documentRange originalDocumentText, out)], s2))
           | Undefined \<Rightarrow> (Inl TypeError, s1)
           | Null \<Rightarrow> (Inl TypeError, s1)
           | Bool b \<Rightarrow> (Inl TypeError, s1)
           | Arr vs \<Rightarrow> (Inl TypeError, s1)
           | Obj kvs \<Rightarrow> (Inl TypeError, s1)))"

section \<open>Example installations\<close>

definition paths_section :: "(string \<times> jsval) list" where
  "paths_section =
     [(''lsp_server_path'', Str ''/sdk/bin/mojo-lsp-server''),
      (''mblack_path'', Str ''/sdk/bin/mblack''),
      (''lldb_plugin_path'', Str ''/sdk/lib/libMojoLLDB.so''),
      (''lldb_vscode_path'', Str ''/sdk/bin/lldb-dap''),
      (''driver_path'', Str ''/sdk/bin/mojo''),
      (''lldb_visualizers_path'', Str ''/sdk/lib/lldb-visualizers''),
      (''lldb_path'', Str ''/sdk/bin/mojo-lldb'')]"

definition full_config :: "(string \<times> jsval) list" where
  "full_config = [(''max'', Obj [(''version'', Str ''25.1.0'')]), (''mojo-max'', Obj paths_section)]"

text \<open>The same file without its \<^verbatim>\<open>lldb_path\<close> line.\<close>

definition config_without_lldb :: "(string \<times> jsval) list" where
  "config_without_lldb =
     [(''max'', Obj [(''version'', Str ''25.1.0'')]), (''mojo-max'', Obj (butlast paths_section))]"

definition manager0 :: manager where
  "manager0 = \<lparr>api_init = True, displayedSDKError = False, lastLoadedEnv = None,
                activeSDK = None, trace = []\<rparr>"

text \<open>A machine with nothing on it and no Python environment.\<close>

definition world0 :: world where
  "world0 = \<lparr>workspaceFolders = None,
              fs_stat = (\<lambda>p. None),
              fs_readFile = (\<lambda>p. Inl ''ENOENT''),
              decode = (\<lambda>b. Some []),
              ini_parse = (\<lambda>c. Some []),
              fileExists = (\<lambda>p. False),
              activeEnvironmentPath = ''/venv/bin/python'',
              resolveEnvironment = (\<lambda>p. None),
              platform = ''linux'',
              exec = (\<lambda>c. None),
              execFile = (\<lambda>p a. None),
              formatting_args = [],
              run_formatter = (\<lambda>p a i. (True, [], []))\<rparr>"

text \<open>An environment at \<^verbatim>\<open>/venv\<close> with a descriptor file under \<^verbatim>\<open>share/max\<close>.\<close>

definition venv :: ResolvedEnvironment where
  "venv = \<lparr>sysPrefix = ''/venv'', env_version = Some (3, 12)\<rparr>"

definition world_env :: "(string \<times> jsval) list \<Rightarrow> world" where
  "world_env config =
     world0\<lparr>fs_readFile := (\<lambda>p. if p = ''/venv/share/max/modular.cfg'' then Inr [] else Inl ''ENOENT''),
            ini_parse := (\<lambda>c. Some config),
            fileExists := (\<lambda>p. p = ''/venv/share/max/modular.cfg''),
            resolveEnvironment := (\<lambda>p. if p = ''/venv/bin/python'' then Some venv else None)\<rparr>"

text \<open>
  The same, inside a single workspace folder \<^verbatim>\<open>/ws\<close> that has a \<^verbatim>\<open>.derived\<close>
  directory; \<open>cfg_there\<close> says whether the directory holds a descriptor file.
\<close>

definition world_mono :: "bool \<Rightarrow> world" where
  "world_mono cfg_there =
     (world_env full_config)
       \<lparr>workspaceFolders := Some [''/ws''],
        fs_stat := (\<lambda>p. if p = ''/ws/.derived'' then Some 2 else None),
        fs_readFile := (\<lambda>p. if p = ''/venv/share/max/modular.cfg'' then Inr []
                             else if p = ''/ws/.derived/modular.cfg'' \<and> cfg_there then Inr []
                             else Inl ''ENOENT'')\<rparr>"

text \<open>
  A packaged distribution at \<^verbatim>\<open>/venv\<close>: every path exists as a file except the ones
  listed in \<open>missing\<close>. The runtime answers the version command and the debugger the
  scripted check; any other command line fails.
\<close>

definition world_wheel :: "string list \<Rightarrow> world" where
  "world_wheel missing =
     world0\<lparr>fs_stat := (\<lambda>p. if p \<in> set missing then None else Some 1),
            resolveEnvironment := (\<lambda>p. if p = ''/venv/bin/python'' then Some venv else None),
            exec := (\<lambda>c. if c = [CHR 0x22] @ ''/venv/bin/mojo'' @ [CHR 0x22] @ '' --version''
                         then Some (''mojo 25.1.0'', []) else None),
            execFile := (\<lambda>p a. if p = ''/venv/bin/mojo-lldb'' \<and> a = [''-b'', ''-o'', ''script print(100+1)'']
                               then Some (''(lldb) script print(100+1)'' @ [CHR 0x0A] @ ''101'', [])
                               else None),
            run_formatter := (\<lambda>p a i. (False, [], []))\<rparr>"

definition sample_sdk :: SDK where
  "sample_sdk =
     BaseSDK \<lparr>kind = Environment, version = Str ''mojo 25.1.0'',
              lspPath = Str ''/venv/bin/mojo-lsp-server'', mblackPath = Str ''/venv/bin/mblack'',
              lldbPluginPath = Str ''/venv/lib/python3.12/site-packages/modular/lib/libMojoLLDB.so'',
              dapPath = Str ''/venv/bin/lldb-dap'', mojoPath = Str ''/venv/bin/mojo'',
              visualizersPath = Str ''/venv/lib/python3.12/site-packages/modular/lib/lldb-visualizers'',
              lldbPath = Str ''/venv/bin/mojo-lldb''\<rparr>"


text \<open>The descriptor built from \<open>full_config\<close>, with the debugger path left open.\<close>

definition home_sdk :: "SDKKind \<Rightarrow> jsval \<Rightarrow> string \<Rightarrow> string option \<Rightarrow> SDK" where
  "home_sdk k lldb homePath prefixPath =
     HomeSDK \<lparr>kind = k, version = Str ''25.1.0'',
              lspPath = Str ''/sdk/bin/mojo-lsp-server'', mblackPath = Str ''/sdk/bin/mblack'',
              lldbPluginPath = Str ''/sdk/lib/libMojoLLDB.so'', dapPath = Str ''/sdk/bin/lldb-dap'',
              mojoPath = Str ''/sdk/bin/mojo'', visualizersPath = Str ''/sdk/lib/lldb-visualizers'',
              lldbPath = lldb\<rparr> homePath prefixPath"


text \<open>
  The environment at \<^verbatim>\<open>/venv\<close> seen from a single workspace folder \<^verbatim>\<open>/ws\<close> that has no
  \<^verbatim>\<open>.derived\<close> entry.
\<close>

definition world_single_root :: world where
  "world_single_root = (world_env full_config)\<lparr>workspaceFolders := Some [''/ws'']\<rparr>"

text \<open>
  The workspace of \<open>world_mono\<close> with a descriptor file that is there, decoded by \<open>dec\<close>
  and parsed by \<open>prs\<close>.
\<close>

definition world_derived ::
  "(nat list \<Rightarrow> string option) \<Rightarrow> (string \<Rightarrow> (string \<times> jsval) list option) \<Rightarrow> world" where
  "world_derived dec prs = (world_mono True)\<lparr>decode := dec, ini_parse := prs\<rparr>"


text \<open>A formatter that hands its input back, and a manager that holds a descriptor.\<close>

definition world_echo :: world where
  "world_echo = world0\<lparr>run_formatter := (\<lambda>p a i. (False, i, []))\<rparr>"

definition manager_cached :: manager where
  "manager_cached = manager0\<lparr>activeSDK := Some sample_sdk\<rparr>"

section \<open>Basic facts\<close>

lemma emit_simps [simp]:
  "trace (emit es s) = trace s @ es"
  "displayedSDKError (emit es s) = displayedSDKError s"
  "lastLoadedEnv (emit es s) = lastLoadedEnv s"
  "activeSDK (emit es s) = activeSDK s"
  "api_init (emit es s) = api_init s"
  by (simp_all add: emit_def)

lemma emit_emit [simp]: "emit es (emit es' s) = emit (es' @ es) s"
  by (simp add: emit_def)

lemma displaySDKError_simps [simp]:
  "trace (displaySDKError m s) = trace s @ (if displayedSDKError s then [] else [ShowErrorMessage m])"
  "displayedSDKError (displaySDKError m s) = True"
  "lastLoadedEnv (displaySDKError m s) = lastLoadedEnv s"
  "activeSDK (displaySDKError m s) = activeSDK s"
  "api_init (displaySDKError m s) = api_init s"
  by (simp_all add: displaySDKError_def)

lemma snd_retrievePath [simp]: "snd (retrievePath w t s) = emit [FsStat t] s"
  by (simp add: retrievePath_def split: option.splits)

lemma fst_retrievePath [simp]:
  "fst (retrievePath w t s) = (if fs_stat w t = None then None else Some t)"
  by (simp add: retrievePath_def split: option.splits)

lemma falsy_if [simp]: "falsy (if c then None else Some t) = (c \<or> t = [])"
  by (simp add: falsy_def)

lemma case_option_const: "(case x of None \<Rightarrow> a | Some y \<Rightarrow> a) = a"
  by (cases x) simp_all

lemma path_normalize_nonempty: "path_normalize p \<noteq> []"
  by (simp add: path_normalize_def Let_def)

lemma path_join_nonempty [simp]: "path_join ps \<noteq> []"
  by (simp add: path_join_def Let_def path_normalize_nonempty)

text \<open>Unfolding everything evaluates the model on the example installations.\<close>

lemmas eval_defs =
  world0_def world_env_def world_mono_def world_wheel_def manager0_def venv_def
  full_config_def config_without_lldb_def paths_section_def sample_sdk_def home_sdk_def
  findActiveSDK_def getActiveSDK_def tryGetMonorepoSDK_def createSDKFromHomePath_def
  createSDKFromWheelEnv_def retrievePath_def envHasModularCfg_def
  handleEnvironmentChange_def displaySDKError_def emit_def
  readVersion_def newHomeSDK_def mojoMax_def bind_err_def
  path_join_def path_normalize_def wheel_binPath_def wheel_libPath_def libExt_def falsy_def
  version_command_def msg_env_def msg_read_def msg_key_def msg_parse_def msg_decode_def Let_def

section \<open>The packaged-distribution construction, in one equation\<close>

lemma createSDKFromWheelEnv_eq:
  assumes "env_version env = Some v"
  shows "createSDKFromWheelEnv env w s =
    (if \<exists>t\<in>set (wheel_targets w env v). fs_stat w t = None
     then (Inr None, emit (map FsStat (wheel_targets w env v)) s)
     else (case exec w (version_command (path_join [wheel_binPath env, ''mojo''])) of
             None \<Rightarrow> (Inl ExecError,
                       emit (map FsStat (wheel_targets w env v)
                             @ [Exec (version_command (path_join [wheel_binPath env, ''mojo'']))]) s)
           | Some (out, err) \<Rightarrow>
               (Inr (Some (BaseSDK \<lparr>kind = Environment, version = Str out,
                      lspPath = Str (path_join [wheel_binPath env, ''mojo-lsp-server'']),
                      mblackPath = Str (path_join [wheel_binPath env, ''mblack'']),
                      lldbPluginPath = Str (path_join [wheel_libPath env v, ''libMojoLLDB.'' @ libExt w]),
                      dapPath = Str (path_join [wheel_binPath env, ''lldb-dap'']),
                      mojoPath = Str (path_join [wheel_binPath env, ''mojo'']),
                      visualizersPath = Str (path_join [wheel_libPath env v, ''lldb-visualizers'']),
                      lldbPath = Str (path_join [wheel_binPath env, ''mojo-lldb''])\<rparr>)),
                emit (map FsStat (wheel_targets w env v)
                      @ [Exec (version_command (path_join [wheel_binPath env, ''mojo'']))]) s)))"
proof (cases "\<exists>t\<in>set (wheel_targets w env v). fs_stat w t = None")
  case True
  with assms show ?thesis
    by (simp add: createSDKFromWheelEnv_def wheel_targets_def Let_def split_def
          disj_ac disj_absorb disj_left_absorb
        del: not_None_eq split del: if_split)
next
  case False
  with assms show ?thesis
    by (simp add: createSDKFromWheelEnv_def wheel_targets_def Let_def split_def
        del: not_None_eq split del: if_split cong: option.case_cong)
qed

lemma createSDKFromWheelEnv_Some:
  assumes "createSDKFromWheelEnv env w s = (Inr (Some sdk), s')"
  shows "\<exists>f. sdk = BaseSDK f \<and> kind f = Environment"
proof (cases "env_version env")
  case None
  with assms show ?thesis by (simp add: createSDKFromWheelEnv_def)
next
  case (Some v)
  show ?thesis
  proof (cases "\<exists>t\<in>set (wheel_targets w env v). fs_stat w t = None")
    case True
    with assms Some show ?thesis
      by (simp only: createSDKFromWheelEnv_eq [OF Some] if_True) simp
  next
    case False
    with assms Some show ?thesis
      by (simp only: createSDKFromWheelEnv_eq [OF Some] if_False) (auto split: option.splits)
  qed
qed

lemma createSDKFromHomePath_Some:
  assumes "createSDKFromHomePath k h p w s = (Some sdk, s')"
  shows "\<exists>f. sdk = HomeSDK f h p \<and> kind f = k"
proof -
  from assms obtain config ver where "newHomeSDK k ver h config p = Inr sdk"
    by (auto simp: createSDKFromHomePath_def Let_def split: sum.splits option.splits)
  then show ?thesis
    by (auto simp: newHomeSDK_def bind_err_def split: sum.splits)
qed

subsection \<open>The example distribution\<close>

lemma venv_paths:
  "env_version venv = Some (3, 12)"
  "wheel_binPath venv = ''/venv/bin''"
  "wheel_libPath venv (3, 12) = ''/venv/lib/python3.12/site-packages/modular/lib''"
  by (simp_all add: wheel_binPath_def wheel_libPath_def venv_def path_join_def path_normalize_def)

lemma world_wheel_fields:
  "workspaceFolders (world_wheel m) = None"
  "fs_stat (world_wheel m) p = (if p \<in> set m then None else Some 1)"
  "fileExists (world_wheel m) p = False"
  "activeEnvironmentPath (world_wheel m) = ''/venv/bin/python''"
  "resolveEnvironment (world_wheel m) ''/venv/bin/python'' = Some venv"
  "platform (world_wheel m) = ''linux''"
  "exec (world_wheel m) c =
     (if c = [CHR 0x22] @ ''/venv/bin/mojo'' @ [CHR 0x22] @ '' --version''
      then Some (''mojo 25.1.0'', []) else None)"
  "execFile (world_wheel m) p a =
     (if p = ''/venv/bin/mojo-lldb'' \<and> a = [''-b'', ''-o'', ''script print(100+1)'']
      then Some (''(lldb) script print(100+1)'' @ [CHR 0x0A] @ ''101'', []) else None)"
  "run_formatter (world_wheel m) q a i = (False, [], [])"
  "formatting_args (world_wheel m) = []"
  by (simp_all add: world_wheel_def world0_def)

lemma wheel_present:
  "fst (createSDKFromWheelEnv venv (world_wheel []) s) = Inr (Some sample_sdk)"
proof -
  have "\<not> (\<exists>t\<in>set (wheel_targets (world_wheel []) venv (3, 12)). fs_stat (world_wheel []) t = None)"
    by (simp add: world_wheel_fields)
  then show ?thesis
    by (simp add: createSDKFromWheelEnv_eq [OF venv_paths(1)] venv_paths(2,3) sample_sdk_def
          world_wheel_fields libExt_def path_join_def path_normalize_def version_command_def
        del: not_None_eq)
qed

lemma wheel_world_resolves:
  "fst (getActiveSDK (world_wheel []) manager0) = Inr (Some sample_sdk)"
proof -
  have "fst (findActiveSDK (world_wheel []) manager0) = Inr (Some sample_sdk)"
    by (simp add: findActiveSDK_def tryGetMonorepoSDK_def envHasModularCfg_def Let_def wheel_present
          world_wheel_fields manager0_def)
  then show ?thesis
    by (auto simp: getActiveSDK_def manager0_def split: prod.splits sum.splits)
qed

section \<open>Dialogs and the flag\<close>

lemma budget_displaySDKError [simp]: "budget (displaySDKError m s) = budget s"
  by (simp add: budget_def dialogs_def)

lemma budget_emit [simp]: "\<forall>e\<in>set es. \<not> is_dialog e \<Longrightarrow> budget (emit es s) = budget s"
  by (simp add: budget_def dialogs_def)

lemma budget_lastLoadedEnv [simp]: "budget (s\<lparr>lastLoadedEnv := x\<rparr>) = budget s"
  by (simp add: budget_def dialogs_def)

lemma budget_activeSDK [simp]: "budget (s\<lparr>activeSDK := x\<rparr>) = budget s"
  by (simp add: budget_def dialogs_def)

lemma budget_createSDKFromHomePath [simp]:
  "budget (snd (createSDKFromHomePath k h p w s)) = budget s"
  by (simp add: createSDKFromHomePath_def Let_def split: sum.splits option.splits)

lemma budget_tryGetMonorepoSDK [simp]:
  "budget (snd (tryGetMonorepoSDK w s)) = budget s"
  by (simp add: tryGetMonorepoSDK_def Let_def split: option.splits)

lemma budget_createSDKFromWheelEnv [simp]:
  "budget (snd (createSDKFromWheelEnv env w s)) = budget s"
proof (cases "env_version env")
  case None
  then show ?thesis by (simp add: createSDKFromWheelEnv_def)
next
  case (Some v)
  have "\<forall>e\<in>set (map FsStat (wheel_targets w env v)). \<not> is_dialog e"
    by (simp add: wheel_targets_def)
  then show ?thesis
    by (simp add: createSDKFromWheelEnv_eq [OF Some] split: option.splits)
qed

lemma budget_findActiveSDK [simp]:
  "budget (snd (findActiveSDK w s)) = budget s"
proof (cases "tryGetMonorepoSDK w s")
  case (Pair r s1)
  then have b1: "budget s1 = budget s"
    using budget_tryGetMonorepoSDK [of w s] by simp
  show ?thesis
  proof (cases r)
    case (Some sdk)
    with Pair b1 show ?thesis by (simp add: findActiveSDK_def)
  next
    case None
    show ?thesis
    proof (cases "resolveEnvironment w (activeEnvironmentPath w)")
      case N: None
      with Pair None b1 show ?thesis by (simp add: findActiveSDK_def Let_def)
    next
      case (Some env)
      with Pair None b1 show ?thesis
        by (simp add: findActiveSDK_def Let_def split_def)
    qed
  qed
qed

lemma budget_getActiveSDK [simp]:
  "budget (snd (getActiveSDK w s)) = budget s"
proof (cases "findActiveSDK w s")
  case (Pair r s1)
  then have "budget s1 = budget s"
    using budget_findActiveSDK [of w s] by simp
  with Pair show ?thesis
    by (simp add: getActiveSDK_def split: option.splits sum.splits)
qed

lemma budget_step:
  "budget (step c s) = (if invalidates c s \<and> displayedSDKError s then budget s + 1 else budget s)"
proof (cases c)
  case (EnvironmentChange newEnv)
  then show ?thesis
    by (simp add: handleEnvironmentChange_def budget_def dialogs_def)
qed simp_all

lemma budget_run: "budget (run cs s) \<le> budget s + invalidations cs s"
proof (induction cs arbitrary: s)
  case Nil
  then show ?case by simp
next
  case (Cons c cs)
  have "budget (run cs (step c s)) \<le> budget (step c s) + invalidations cs (step c s)"
    by (rule Cons.IH)
  also have "budget (step c s) \<le> budget s + (if invalidates c s then 1 else 0)"
    by (simp add: budget_step)
  finally show ?case by simp
qed

lemma dialogs_le_budget: "dialogs s \<le> budget s"
  by (simp add: budget_def)

section \<open>Invalidation\<close>

lemma handleEnvironmentChange_same_key:
  "lastLoadedEnv s = Some k \<Longrightarrow> handleEnvironmentChange k s = s"
  by (simp add: handleEnvironmentChange_def)

lemma handleEnvironmentChange_other_key:
  "lastLoadedEnv s \<noteq> Some k \<Longrightarrow>
     trace (handleEnvironmentChange k s) = trace s @ [FireEnvChange]
     \<and> notifications (handleEnvironmentChange k s) = notifications s + 1
     \<and> \<not> displayedSDKError (handleEnvironmentChange k s)
     \<and> lastLoadedEnv (handleEnvironmentChange k s) = lastLoadedEnv s
     \<and> activeSDK (handleEnvironmentChange k s) = activeSDK s"
  by (auto simp: handleEnvironmentChange_def notifications_def)

text \<open>
  Claim C1. On a key equal to the last observed one the handler changes nothing; on a
  different key it fires one notification and clears the flag. It leaves the cached
  descriptor where it is: a manager that holds a descriptor for one environment and is
  told of another keeps the descriptor, and the next \<open>getActiveSDK\<close> returns it without
  looking at the world, here a world in which no installation exists at all.
\<close>

theorem handleEnvironmentChange_keeps_cache:
  "handleEnvironmentChange ''/other/bin/python''
     (manager0\<lparr>lastLoadedEnv := Some ''/venv/bin/python'', activeSDK := Some sample_sdk\<rparr>)
   = manager0\<lparr>lastLoadedEnv := Some ''/venv/bin/python'', activeSDK := Some sample_sdk,
               trace := [FireEnvChange]\<rparr>
   \<and> fst (getActiveSDK world0
        (handleEnvironmentChange ''/other/bin/python''
           (manager0\<lparr>lastLoadedEnv := Some ''/venv/bin/python'', activeSDK := Some sample_sdk\<rparr>)))
     = Inr (Some sample_sdk)"
  by (simp add: handleEnvironmentChange_def getActiveSDK_def manager0_def emit_def)

section \<open>Home-path construction\<close>

text \<open>
  Claim C2. A descriptor file that parses, has both sections, and lacks the
  \<^verbatim>\<open>lldb_path\<close> key: reading the absent key yields \<^verbatim>\<open>undefined\<close> and throws
  nothing, so the construction returns a descriptor whose debugger path is
  \<^verbatim>\<open>undefined\<close> and shows no error.
\<close>

theorem createSDKFromHomePath_missing_key:
  "createSDKFromHomePath Environment ''/venv/share/max'' (Some ''/venv'')
     (world_env config_without_lldb) manager0
   = (Some (home_sdk Environment Undefined ''/venv/share/max'' (Some ''/venv'')),
      manager0\<lparr>trace := [FsReadFile ''/venv/share/max/modular.cfg'',
                          SendTelemetry ''sdkLoaded'' (Str ''25.1.0'') Environment]\<rparr>)"
  by (simp add: eval_defs)

section \<open>The cache\<close>



section \<open>The process environment\<close>

text \<open>
  Claim C6, as the claim has it: the legacy variable is an alias of the runtime-home
  variable. For the descriptor resolved from the environment at \<^verbatim>\<open>/venv\<close> the two
  differ: \<^verbatim>\<open>CONDA_PREFIX\<close> is the prefix, \<^verbatim>\<open>MODULAR_HOME\<close> the directory
  \<^verbatim>\<open>share/max\<close> under it.
\<close>

theorem getProcessEnv_alias_counterexample:
  "fst (findActiveSDK (world_env full_config) manager0)
     = Inr (Some (home_sdk Environment (Str ''/sdk/bin/mojo-lldb'') ''/venv/share/max'' (Some ''/venv'')))
   \<and> map_of (getProcessEnv (home_sdk Environment (Str ''/sdk/bin/mojo-lldb'') ''/venv/share/max'' (Some ''/venv'')) True)
        ''CONDA_PREFIX'' = Some (Str ''/venv'')
   \<and> map_of (getProcessEnv (home_sdk Environment (Str ''/sdk/bin/mojo-lldb'') ''/venv/share/max'' (Some ''/venv'')) True)
        ''MODULAR_HOME'' = Some (Str ''/venv/share/max'')"
  by (simp add: eval_defs SDK_getProcessEnv_def)

text \<open>
  Claim C6, amended. The process environment of a descriptor built from a home path is
  the telemetry flag (\<^verbatim>\<open>true\<close> or \<^verbatim>\<open>false\<close> as asked), \<^verbatim>\<open>MODULAR_HOME\<close> set to the
  home path, and \<^verbatim>\<open>CONDA_PREFIX\<close> set to the prefix path given to the construction,
  \<^verbatim>\<open>undefined\<close> when none was given. The one of a descriptor built from a packaged
  distribution is the telemetry flag alone.
\<close>

theorem processEnv_of_constructed:
  "(createSDKFromHomePath k h p w s = (Some sdk, s') \<longrightarrow>
      getProcessEnv sdk t =
        [(''MODULAR_TELEMETRY_ENABLED'', Str (if t then ''true'' else ''false'')),
         (''MODULAR_HOME'', Str h),
         (''CONDA_PREFIX'', (case p of None \<Rightarrow> Undefined | Some q \<Rightarrow> Str q))])
   \<and> (createSDKFromWheelEnv env w s = (Inr (Some sdk), s') \<longrightarrow>
      getProcessEnv sdk t = [(''MODULAR_TELEMETRY_ENABLED'', Str (if t then ''true'' else ''false''))])"
  using createSDKFromHomePath_Some [of k h p w s sdk s'] createSDKFromWheelEnv_Some [of env w s sdk s']
  by (auto simp: SDK_getProcessEnv_def)

theorem processEnv_of_constructed_witness:
  "createSDKFromHomePath Internal ''/ws/.derived'' None (world_mono True) manager0
     = (Some (home_sdk Internal (Str ''/sdk/bin/mojo-lldb'') ''/ws/.derived'' None),
        snd (createSDKFromHomePath Internal ''/ws/.derived'' None (world_mono True) manager0))
   \<and> getProcessEnv (home_sdk Internal (Str ''/sdk/bin/mojo-lldb'') ''/ws/.derived'' None) False
     = [(''MODULAR_TELEMETRY_ENABLED'', Str ''false''), (''MODULAR_HOME'', Str ''/ws/.derived''),
        (''CONDA_PREFIX'', Undefined)]
   \<and> createSDKFromWheelEnv venv (world_wheel []) manager0
     = (Inr (Some sample_sdk), snd (createSDKFromWheelEnv venv (world_wheel []) manager0))
   \<and> getProcessEnv sample_sdk False = [(''MODULAR_TELEMETRY_ENABLED'', Str ''false'')]"
proof -
  have "fst (createSDKFromHomePath Internal ''/ws/.derived'' None (world_mono True) manager0)
      = Some (home_sdk Internal (Str ''/sdk/bin/mojo-lldb'') ''/ws/.derived'' None)"
    by (simp add: eval_defs)
  then have h: "createSDKFromHomePath Internal ''/ws/.derived'' None (world_mono True) manager0
     = (Some (home_sdk Internal (Str ''/sdk/bin/mojo-lldb'') ''/ws/.derived'' None),
        snd (createSDKFromHomePath Internal ''/ws/.derived'' None (world_mono True) manager0))"
    by (simp add: prod_eq_iff)
  have "fst (createSDKFromWheelEnv venv (world_wheel []) manager0) = Inr (Some sample_sdk)"
    by (rule wheel_present)
  then have g: "createSDKFromWheelEnv venv (world_wheel []) manager0
     = (Inr (Some sample_sdk), snd (createSDKFromWheelEnv venv (world_wheel []) manager0))"
    by (simp add: prod_eq_iff)
  note x = mp [OF conjunct1 [OF processEnv_of_constructed
            [of Internal "''/ws/.derived''" None "world_mono True" manager0
                "home_sdk Internal (Str ''/sdk/bin/mojo-lldb'') ''/ws/.derived'' None"
                "snd (createSDKFromHomePath Internal ''/ws/.derived'' None (world_mono True) manager0)"
                False]] h]
  note y = mp [OF conjunct2 [OF processEnv_of_constructed
            [of _ _ _ "world_wheel []" manager0 sample_sdk
                "snd (createSDKFromWheelEnv venv (world_wheel []) manager0)" False venv]] g]
  show ?thesis
  proof (intro conjI)
    show "createSDKFromHomePath Internal ''/ws/.derived'' None (world_mono True) manager0
     = (Some (home_sdk Internal (Str ''/sdk/bin/mojo-lldb'') ''/ws/.derived'' None),
        snd (createSDKFromHomePath Internal ''/ws/.derived'' None (world_mono True) manager0))"
      by (rule h)
    show "getProcessEnv (home_sdk Internal (Str ''/sdk/bin/mojo-lldb'') ''/ws/.derived'' None) False
     = [(''MODULAR_TELEMETRY_ENABLED'', Str ''false''), (''MODULAR_HOME'', Str ''/ws/.derived''),
        (''CONDA_PREFIX'', Undefined)]"
      using x by simp
    show "createSDKFromWheelEnv venv (world_wheel []) manager0
     = (Inr (Some sample_sdk), snd (createSDKFromWheelEnv venv (world_wheel []) manager0))"
      by (rule g)
    show "getProcessEnv sample_sdk False = [(''MODULAR_TELEMETRY_ENABLED'', Str ''false'')]"
      using y by simp
  qed
qed

section \<open>No environment\<close>

text \<open>
  Claim C7. When the workspace-local source gives nothing and the active environment
  path does not resolve, \<open>findActiveSDK\<close> returns nothing; after the events of the
  workspace-local source it asks for the environment path, tries to resolve it, and
  shows the error unless the flag is already set. No file is read or looked for and no
  process is started, so neither construction is attempted. \<open>getActiveSDK\<close> on an empty
  cache does the same.
\<close>

theorem findActiveSDK_no_environment:
  assumes "api_init s"
    and "tryGetMonorepoSDK w s = (None, s1)"
    and "resolveEnvironment w (activeEnvironmentPath w) = None"
  shows "fst (findActiveSDK w s) = Inr None
    \<and> trace (snd (findActiveSDK w s)) =
        trace s1 @ [GetActiveEnvironmentPath, ResolveEnvironment (activeEnvironmentPath w)]
                 @ (if displayedSDKError s1 then [] else [ShowErrorMessage msg_env])
    \<and> displayedSDKError (snd (findActiveSDK w s))
    \<and> (activeSDK s = None \<longrightarrow>
          fst (getActiveSDK w s) = Inr None
          \<and> trace (snd (getActiveSDK w s)) = trace (snd (findActiveSDK w s)))"
proof -
  from assms have f: "findActiveSDK w s =
      (Inr None, displaySDKError msg_env
         ((emit [GetActiveEnvironmentPath, ResolveEnvironment (activeEnvironmentPath w)] s1)
            \<lparr>lastLoadedEnv := Some (activeEnvironmentPath w)\<rparr>))"
    by (simp add: findActiveSDK_def Let_def)
  show ?thesis
    by (simp add: f getActiveSDK_def)
qed

theorem findActiveSDK_no_environment_witness:
  "api_init manager0 \<and> tryGetMonorepoSDK world0 manager0 = (None, manager0)
   \<and> resolveEnvironment world0 (activeEnvironmentPath world0) = None
   \<and> fst (findActiveSDK world0 manager0) = Inr None
   \<and> trace (snd (findActiveSDK world0 manager0)) =
        [GetActiveEnvironmentPath, ResolveEnvironment ''/venv/bin/python'', ShowErrorMessage msg_env]
   \<and> fst (getActiveSDK world0 manager0) = Inr None"
proof -
  have a: "api_init manager0" by (simp add: manager0_def)
  have b: "tryGetMonorepoSDK world0 manager0 = (None, manager0)"
    by (simp add: tryGetMonorepoSDK_def world0_def)
  have c: "resolveEnvironment world0 (activeEnvironmentPath world0) = None"
    by (simp add: world0_def)
  have d: "activeSDK manager0 = None" by (simp add: manager0_def)
  have e: "activeEnvironmentPath world0 = ''/venv/bin/python''" by (simp add: world0_def)
  have t: "trace manager0 = []" "\<not> displayedSDKError manager0" by (simp_all add: manager0_def)
  show ?thesis
    using findActiveSDK_no_environment [OF a b c] a b c d e t by simp
qed


section \<open>The packaged distribution\<close>

lemma dialogs_emit_FsStat [simp]: "dialogs (emit (map FsStat ts) s) = dialogs s"
  by (simp add: dialogs_def)

lemma wheel_targets_venv:
  "wheel_targets (world_wheel missing) venv (3, 12) =
     [''/venv/bin/mojo'', ''/venv/bin/mojo-lsp-server'',
      ''/venv/lib/python3.12/site-packages/modular/lib/libMojoLLDB.so'',
      ''/venv/bin/mblack'', ''/venv/bin/lldb-dap'',
      ''/venv/lib/python3.12/site-packages/modular/lib/lldb-visualizers'',
      ''/venv/bin/mojo-lldb'',
      ''/venv/lib/python3.12/site-packages/modular/bin/mojo'']"
  by (simp add: wheel_targets_def venv_paths libExt_def world_wheel_fields
        path_join_def path_normalize_def)




section \<open>The scripting-support probe, checked\<close>

lemma indexOf_lower: "- 1 \<le> indexOf s pat"
  by (induction s) (simp_all add: Let_def)

lemma indexOf_sublist: "(indexOf s pat \<noteq> - 1) = sublist pat s"
proof (induction s)
  case Nil
  then show ?case by simp
next
  case (Cons c cs)
  have "indexOf cs pat + 1 \<noteq> - 1"
    using indexOf_lower [of cs pat] by simp
  with Cons show ?case
    by (auto simp: sublist_Cons_right Let_def)
qed

lemma probeScripting_result:
  "fst (probeScripting w sdk) =
     (\<exists>p out err. lldbPath (fields_of sdk) = Str p
        \<and> execFile w p [''-b'', ''-o'', ''script print(100+1)''] = Some (out, err)
        \<and> sublist ''101'' out)"
  by (auto simp: probeScripting_def lldb_probe_args_def indexOf_sublist split: jsval.splits option.splits)

lemma probeScripting_events:
  "snd (probeScripting w sdk) =
     (case lldbPath (fields_of sdk) of
        Str p \<Rightarrow> [ExecFile p [''-b'', ''-o'', ''script print(100+1)'']]
      | Undefined \<Rightarrow> [] | Null \<Rightarrow> [] | Bool b \<Rightarrow> [] | Arr vs \<Rightarrow> [] | Obj kvs \<Rightarrow> [])"
  by (auto simp: probeScripting_def lldb_probe_args_def split: jsval.splits option.splits)

lemma memo_set:
  "lldbMemo (snd (lldbHasPythonScriptingSupport w inst)) = Some (fst (lldbHasPythonScriptingSupport w inst))"
  by (auto simp: lldbHasPythonScriptingSupport_def split_def Let_def split: option.splits)

lemma probes_memoized:
  "lldbMemo inst = Some r \<Longrightarrow> probes ws inst = (replicate (length ws) r, inst)"
  by (induction ws) (simp_all add: lldbHasPythonScriptingSupport_def)

text \<open>
  Claim C9. On a descriptor not probed before, the probe is true exactly when the
  debugger path is a string, the debugger run with the arguments \<^verbatim>\<open>-b\<close>, \<^verbatim>\<open>-o\<close>,
  \<^verbatim>\<open>script print(100+1)\<close> succeeds, and its standard output contains \<^verbatim>\<open>101\<close>; it is
  false when the run fails. Over any series of calls, whatever the world becomes, every
  call returns what the first returned and at most one process is started: exactly
  that one run of the debugger when its path is a string.
\<close>

theorem lldbHasPythonScriptingSupport_probe:
  "(lldbMemo inst = None \<longrightarrow>
      fst (lldbHasPythonScriptingSupport w inst) =
        (\<exists>p out err. lldbPath (fields_of (descriptor inst)) = Str p
            \<and> execFile w p [''-b'', ''-o'', ''script print(100+1)''] = Some (out, err)
            \<and> sublist ''101'' out))
   \<and> (lldbMemo inst = None
        \<and> (\<forall>p. lldbPath (fields_of (descriptor inst)) = Str p
               \<longrightarrow> execFile w p [''-b'', ''-o'', ''script print(100+1)''] = None)
        \<longrightarrow> \<not> fst (lldbHasPythonScriptingSupport w inst))
   \<and> (lldbMemo inst = None \<and> spawned inst = [] \<longrightarrow>
        length (spawned (snd (probes (w # ws) inst))) \<le> 1
        \<and> fst (probes (w # ws) inst) = replicate (Suc (length ws)) (fst (lldbHasPythonScriptingSupport w inst)))
   \<and> (lldbMemo inst = None \<and> spawned inst = [] \<and> lldbPath (fields_of (descriptor inst)) = Str q \<longrightarrow>
        spawned (snd (probes (w # ws) inst)) = [ExecFile q [''-b'', ''-o'', ''script print(100+1)'']])"
proof -
  have a: "lldbMemo inst = None \<Longrightarrow>
      fst (lldbHasPythonScriptingSupport w inst) =
        (\<exists>p out err. lldbPath (fields_of (descriptor inst)) = Str p
            \<and> execFile w p [''-b'', ''-o'', ''script print(100+1)''] = Some (out, err)
            \<and> sublist ''101'' out)"
    using probeScripting_result [of w "descriptor inst"]
    by (simp add: lldbHasPythonScriptingSupport_def split_def)
  obtain r inst1 where l: "lldbHasPythonScriptingSupport w inst = (r, inst1)"
    by (cases "lldbHasPythonScriptingSupport w inst")
  then have m: "lldbMemo inst1 = Some r"
    using memo_set [of w inst] by simp
  have p: "probes (w # ws) inst = (r # replicate (length ws) r, inst1)"
    using l by (simp add: probes_memoized [OF m])
  have sp: "spawned inst1 = snd (probeScripting w (descriptor inst))"
    if "lldbMemo inst = None" "spawned inst = []"
    using l that by (auto simp: lldbHasPythonScriptingSupport_def split_def Let_def)
  have c: "length (spawned (snd (probes (w # ws) inst))) \<le> 1
        \<and> fst (probes (w # ws) inst) = replicate (Suc (length ws)) (fst (lldbHasPythonScriptingSupport w inst))"
    if "lldbMemo inst = None" "spawned inst = []"
    using sp [OF that] p l
    by (simp add: probeScripting_events split: jsval.splits)
  have d: "spawned (snd (probes (w # ws) inst)) = [ExecFile q [''-b'', ''-o'', ''script print(100+1)'']]"
    if "lldbMemo inst = None" "spawned inst = []" "lldbPath (fields_of (descriptor inst)) = Str q"
    using sp [OF that(1,2)] p that(3) by (simp add: probeScripting_events)
  show ?thesis
    using a c d by auto
qed

theorem lldbHasPythonScriptingSupport_probe_witness:
  "lldbMemo \<lparr>descriptor = sample_sdk, lldbMemo = None, spawned = []\<rparr> = None
   \<and> execFile (world_wheel []) ''/venv/bin/mojo-lldb'' [''-b'', ''-o'', ''script print(100+1)'']
       = Some (''(lldb) script print(100+1)'' @ [CHR 0x0A] @ ''101'', [])
   \<and> execFile (world_wheel []) ''/venv/bin/mojo-lldb'' [] = None
   \<and> fst (lldbHasPythonScriptingSupport (world_wheel [])
            \<lparr>descriptor = sample_sdk, lldbMemo = None, spawned = []\<rparr>)
   \<and> \<not> fst (lldbHasPythonScriptingSupport world0
            \<lparr>descriptor = sample_sdk, lldbMemo = None, spawned = []\<rparr>)
   \<and> fst (probes [world_wheel [], world0, world0]
            \<lparr>descriptor = sample_sdk, lldbMemo = None, spawned = []\<rparr>) = [True, True, True]
   \<and> spawned (snd (probes [world_wheel [], world0, world0]
            \<lparr>descriptor = sample_sdk, lldbMemo = None, spawned = []\<rparr>))
       = [ExecFile ''/venv/bin/mojo-lldb'' [''-b'', ''-o'', ''script print(100+1)'']]"
proof -
  let ?i = "\<lparr>descriptor = sample_sdk, lldbMemo = None, spawned = []\<rparr>"
  have m: "lldbMemo ?i = None" "spawned ?i = []" by simp_all
  have p: "lldbPath (fields_of (descriptor ?i)) = Str ''/venv/bin/mojo-lldb''"
    by (simp add: sample_sdk_def)
  have e: "execFile (world_wheel []) ''/venv/bin/mojo-lldb'' [''-b'', ''-o'', ''script print(100+1)'']
             = Some (''(lldb) script print(100+1)'' @ [CHR 0x0A] @ ''101'', [])"
    by (simp add: world_wheel_fields)
  have e0: "execFile (world_wheel []) ''/venv/bin/mojo-lldb'' [] = None"
    by (simp add: world_wheel_fields)
  have s: "sublist ''101'' (''(lldb) script print(100+1)'' @ [CHR 0x0A] @ ''101'')"
    unfolding sublist_def
    by (rule exI [of _ "''(lldb) script print(100+1)'' @ [CHR 0x0A]"], rule exI [of _ "[]"]) simp
  note pr = lldbHasPythonScriptingSupport_probe
  have t: "fst (lldbHasPythonScriptingSupport (world_wheel []) ?i)"
    using conjunct1 [OF pr [of ?i "world_wheel []" "[world0, world0]"]] m p e s by auto
  have n: "\<forall>q. lldbPath (fields_of (descriptor ?i)) = Str q
             \<longrightarrow> execFile world0 q [''-b'', ''-o'', ''script print(100+1)''] = None"
    by (simp add: world0_def)
  have f: "\<not> fst (lldbHasPythonScriptingSupport world0 ?i)"
    using conjunct1 [OF conjunct2 [OF pr [of ?i world0 "[]"]]] m n by blast
  have r: "length (spawned (snd (probes [world_wheel [], world0, world0] ?i))) \<le> 1
     \<and> fst (probes [world_wheel [], world0, world0] ?i)
         = replicate (Suc (length [world0, world0])) (fst (lldbHasPythonScriptingSupport (world_wheel []) ?i))"
    using conjunct1 [OF conjunct2 [OF conjunct2 [OF pr [of ?i "world_wheel []" "[world0, world0]"]]]] m
    by blast
  have u: "spawned (snd (probes [world_wheel [], world0, world0] ?i))
       = [ExecFile ''/venv/bin/mojo-lldb'' [''-b'', ''-o'', ''script print(100+1)'']]"
    using conjunct2 [OF conjunct2 [OF conjunct2 [OF pr [of ?i "world_wheel []" "[world0, world0]" "''/venv/bin/mojo-lldb''"]]]] m p
    by blast
  have r': "fst (probes [world_wheel [], world0, world0] ?i) = [True, True, True]"
    using r t by (simp add: numeral_3_eq_3)
  show ?thesis
    using m e e0 t f r' u by blast
qed

section \<open>The formatting provider, checked\<close>

text \<open>
  Claim C10. For a non-empty document whose formatter run succeeds with empty output,
  the provider resolves with no edits; and whenever it resolves for a non-empty
  document, no edit carries an empty replacement text.
\<close>

theorem formatter_empty_output:
  "(originalDocumentText \<noteq> [] \<and> getActiveSDK w s = (Inr (Some sdk), s1)
      \<and> mblackPath (fields_of sdk) = Str p
      \<and> run_formatter w p (formatter_args w) originalDocumentText = (False, [], errout)
     \<longrightarrow> fst (provideDocumentFormattingEdits w originalDocumentText s) = Inr [])
   \<and> (originalDocumentText \<noteq> [] \<and> fst (provideDocumentFormattingEdits w originalDocumentText s) = Inr edits
     \<longrightarrow> (\<forall>e\<in>set edits. snd e \<noteq> []))"
  by (auto simp: provideDocumentFormattingEdits_def Let_def split_def
           split: prod.splits sum.splits option.splits jsval.splits if_split_asm)

theorem formatter_empty_output_witness:
  "''x = 1'' \<noteq> []
   \<and> fst (getActiveSDK (world_wheel []) manager0) = Inr (Some sample_sdk)
   \<and> mblackPath (fields_of sample_sdk) = Str ''/venv/bin/mblack''
   \<and> run_formatter (world_wheel []) ''/venv/bin/mblack'' (formatter_args (world_wheel [])) ''x = 1''
        = (False, [], [])
   \<and> fst (provideDocumentFormattingEdits (world_wheel []) ''x = 1'' manager0) = Inr []
   \<and> fst (provideDocumentFormattingEdits world_echo ''x = 1'' manager_cached)
        = Inr [(((0, 0), (0, 5)), ''x = 1'')]
   \<and> snd (((0::nat, 0::nat), (0::nat, 5::nat)), ''x = 1'') \<noteq> []"
proof -
  have f: "fst (getActiveSDK (world_wheel []) manager0) = Inr (Some sample_sdk)"
    by (rule wheel_world_resolves)
  then have h: "getActiveSDK (world_wheel []) manager0
      = (Inr (Some sample_sdk), snd (getActiveSDK (world_wheel []) manager0))"
    by (simp add: prod_eq_iff)
  have t: "''x = 1'' \<noteq> []" by simp
  have m: "mblackPath (fields_of sample_sdk) = Str ''/venv/bin/mblack''"
    by (simp add: sample_sdk_def)
  have r: "run_formatter (world_wheel []) ''/venv/bin/mblack'' (formatter_args (world_wheel [])) ''x = 1''
        = (False, [], [])"
    by (simp add: world_wheel_fields)
  have g: "fst (provideDocumentFormattingEdits world_echo ''x = 1'' manager_cached)
        = Inr [(((0, 0), (0, 5)), ''x = 1'')]"
    by (simp add: provideDocumentFormattingEdits_def getActiveSDK_def manager_cached_def manager0_def
          sample_sdk_def world_echo_def world0_def documentRange_def Let_def)
  note x = mp [OF conjunct1 [OF formatter_empty_output
                 [of "''x = 1''" "world_wheel []" manager0 sample_sdk
                     "snd (getActiveSDK (world_wheel []) manager0)" "''/venv/bin/mblack''" "[]"]]
               conjI [OF t conjI [OF h conjI [OF m r]]]]
  note y = mp [OF conjunct2 [OF formatter_empty_output
                 [of "''x = 1''" world_echo manager_cached _ _ _ _ "[(((0, 0), (0, 5)), ''x = 1'')]"]]
               conjI [OF t g]]
  from y have z: "snd (((0::nat, 0::nat), (0::nat, 5::nat)), ''x = 1'') \<noteq> []"
    by simp
  show ?thesis
    using t f m r x g z by blast
qed

section \<open>Error suppression\<close>

lemma createSDKFromHomePath_None_flag:
  "fst (createSDKFromHomePath k h p w s) = None \<Longrightarrow>
     displayedSDKError (snd (createSDKFromHomePath k h p w s))"
  by (auto simp: createSDKFromHomePath_def Let_def split: sum.splits option.splits)

lemma dialogs_of_flag: "displayedSDKError t \<Longrightarrow> dialogs t = budget t"
  by (simp add: budget_def)

lemma budget_after_invalidation:
  "Some k \<noteq> lastLoadedEnv s \<Longrightarrow> budget (handleEnvironmentChange k s) = dialogs s + 1"
  by (simp add: handleEnvironmentChange_def budget_def dialogs_def)

lemma api_init_handleEnvironmentChange [simp]:
  "api_init (handleEnvironmentChange k s) = api_init s"
  by (simp add: handleEnvironmentChange_def)

lemma activeSDK_handleEnvironmentChange [simp]:
  "activeSDK (handleEnvironmentChange k s) = activeSDK s"
  by (simp add: handleEnvironmentChange_def)

lemma dialogs_createSDKFromWheelEnv [simp]:
  "dialogs (snd (createSDKFromWheelEnv env w s)) = dialogs s"
proof (cases "env_version env")
  case None
  then show ?thesis by (simp add: createSDKFromWheelEnv_def)
next
  case (Some v)
  show ?thesis
    by (simp add: createSDKFromWheelEnv_eq [OF Some] dialogs_def split: option.splits)
qed

lemma findActiveSDK_reported:
  assumes "api_init s" and "fst (findActiveSDK w s) = Inr None"
    and "\<forall>env. resolveEnvironment w (activeEnvironmentPath w) = Some env \<longrightarrow> envHasModularCfg w env"
  shows "displayedSDKError (snd (findActiveSDK w s))"
proof (cases "tryGetMonorepoSDK w s")
  case (Pair r s1)
  show ?thesis
  proof (cases r)
    case (Some sdk)
    with Pair assms(1,2) show ?thesis by (simp add: findActiveSDK_def)
  next
    case None
    show ?thesis
    proof (cases "resolveEnvironment w (activeEnvironmentPath w)")
      case N: None
      with Pair None assms(1) show ?thesis by (simp add: findActiveSDK_def Let_def)
    next
      case (Some env)
      with assms(3) have c: "envHasModularCfg w env" by simp
      from Pair None Some c assms(1,2) show ?thesis
        using createSDKFromHomePath_None_flag
        by (simp add: findActiveSDK_def Let_def split_def)
    qed
  qed
qed

lemma getActiveSDK_miss:
  assumes "activeSDK s = None"
  shows "fst (getActiveSDK w s) = fst (findActiveSDK w s)"
    and "trace (snd (getActiveSDK w s)) = trace (snd (findActiveSDK w s))"
  using assms by (auto simp: getActiveSDK_def split: prod.splits sum.splits)

lemma wheel_missing:
  "createSDKFromWheelEnv venv (world_wheel [''/venv/bin/mblack'']) s
     = (Inr None, emit (map FsStat (wheel_targets (world_wheel [''/venv/bin/mblack'']) venv (3, 12))) s)"
proof -
  have "\<exists>t\<in>set (wheel_targets (world_wheel [''/venv/bin/mblack'']) venv (3, 12)).
          fs_stat (world_wheel [''/venv/bin/mblack'']) t = None"
    by (simp add: wheel_targets_venv world_wheel_fields)
  then show ?thesis
    by (simp only: createSDKFromWheelEnv_eq [OF venv_paths(1)] if_True)
qed

lemma wheel_missing_resolution:
  assumes "api_init s"
  shows "findActiveSDK (world_wheel [''/venv/bin/mblack'']) s
     = (Inr None,
        emit ([GetActiveEnvironmentPath, ResolveEnvironment ''/venv/bin/python'',
               FileExists ''/venv/share/max/modular.cfg'']
              @ map FsStat (wheel_targets (world_wheel [''/venv/bin/mblack'']) venv (3, 12)))
          (s\<lparr>lastLoadedEnv := Some ''/venv/bin/python''\<rparr>))"
proof -
  have j: "path_join [sysPrefix venv, ''share'', ''max'', ''modular.cfg''] = ''/venv/share/max/modular.cfg''"
    by (simp add: venv_def path_join_def path_normalize_def)
  show ?thesis
    using assms
    by (simp add: findActiveSDK_def tryGetMonorepoSDK_def envHasModularCfg_def Let_def
          world_wheel_fields wheel_missing j emit_def)
qed

text \<open>
  Claim C5, as the claim has it: after an invalidation a subsequent failure shows one
  more dialog. A resolution that fails in the packaged-distribution construction, here
  with the formatter missing, returns nothing right after an invalidation and shows no
  dialog.
\<close>

theorem silent_failure_after_invalidation_counterexample:
  "Some ''/other/bin/python'' \<noteq> lastLoadedEnv manager0
   \<and> \<not> displayedSDKError (handleEnvironmentChange ''/other/bin/python'' manager0)
   \<and> fst (getActiveSDK (world_wheel [''/venv/bin/mblack''])
            (handleEnvironmentChange ''/other/bin/python'' manager0)) = Inr None
   \<and> dialogs (snd (getActiveSDK (world_wheel [''/venv/bin/mblack''])
            (handleEnvironmentChange ''/other/bin/python'' manager0))) = dialogs manager0"
proof -
  let ?s = "handleEnvironmentChange ''/other/bin/python'' manager0"
  have a: "api_init ?s" "activeSDK ?s = None"
    by (simp_all add: manager0_def)
  have d: "dialogs ?s = dialogs manager0" "\<not> displayedSDKError ?s"
    "Some ''/other/bin/python'' \<noteq> lastLoadedEnv manager0"
    by (simp_all add: handleEnvironmentChange_def dialogs_def manager0_def)
  have t: "dialogs (snd (findActiveSDK (world_wheel [''/venv/bin/mblack'']) ?s)) = dialogs ?s"
    by (simp add: wheel_missing_resolution [OF a(1)] dialogs_def)
  show ?thesis
    using d t getActiveSDK_miss [OF a(2), of "world_wheel [''/venv/bin/mblack'']"]
    by (simp add: wheel_missing_resolution [OF a(1)] dialogs_def)
qed

text \<open>
  Claim C5, amended. Over any sequence of calls on the manager, each in a world of its
  own, the number of dialogs shown is at most the number of invalidations plus one
  (plus zero when the flag is already set): at most one dialog per epoch. Right after
  an invalidation a failure that is reported shows exactly one dialog, and a second
  report shows no more: a failed home-path construction, and a failed resolution
  (\<open>findActiveSDK\<close>, or \<open>getActiveSDK\<close> on an empty cache) that does not end in the
  packaged-distribution construction. The packaged-distribution step of a resolution
  adds no dialog to those of the workspace-local step.
\<close>

theorem dialogs_once_per_epoch:
  "dialogs (run cs s) \<le> dialogs s + (if displayedSDKError s then 0 else 1) + invalidations cs s
   \<and> (Some k \<noteq> lastLoadedEnv s \<longrightarrow>
        dialogs (displaySDKError m (handleEnvironmentChange k s)) = dialogs s + 1
        \<and> dialogs (displaySDKError m' (displaySDKError m (handleEnvironmentChange k s))) = dialogs s + 1)
   \<and> (Some k \<noteq> lastLoadedEnv s
        \<and> fst (createSDKFromHomePath kd h p w (handleEnvironmentChange k s)) = None \<longrightarrow>
        dialogs (snd (createSDKFromHomePath kd h p w (handleEnvironmentChange k s))) = dialogs s + 1)
   \<and> (Some k \<noteq> lastLoadedEnv s \<and> api_init s
        \<and> fst (findActiveSDK w (handleEnvironmentChange k s)) = Inr None
        \<and> (\<forall>env. resolveEnvironment w (activeEnvironmentPath w) = Some env \<longrightarrow> envHasModularCfg w env)
        \<longrightarrow> dialogs (snd (findActiveSDK w (handleEnvironmentChange k s))) = dialogs s + 1)
   \<and> (Some k \<noteq> lastLoadedEnv s \<and> api_init s \<and> activeSDK s = None
        \<and> fst (getActiveSDK w (handleEnvironmentChange k s)) = Inr None
        \<and> (\<forall>env. resolveEnvironment w (activeEnvironmentPath w) = Some env \<longrightarrow> envHasModularCfg w env)
        \<longrightarrow> dialogs (snd (getActiveSDK w (handleEnvironmentChange k s))) = dialogs s + 1)
   \<and> (api_init s \<and> tryGetMonorepoSDK w s = (None, s1)
        \<and> resolveEnvironment w (activeEnvironmentPath w) = Some env \<and> \<not> envHasModularCfg w env
        \<longrightarrow> dialogs (snd (findActiveSDK w s)) = dialogs s1)"
proof (intro conjI impI)
  have "dialogs (run cs s) \<le> budget s + invalidations cs s"
    using dialogs_le_budget [of "run cs s"] budget_run [of cs s] by simp
  then show "dialogs (run cs s) \<le> dialogs s + (if displayedSDKError s then 0 else 1) + invalidations cs s"
    by (simp add: budget_def)
next
  assume "Some k \<noteq> lastLoadedEnv s"
  then show "dialogs (displaySDKError m (handleEnvironmentChange k s)) = dialogs s + 1"
    and "dialogs (displaySDKError m' (displaySDKError m (handleEnvironmentChange k s))) = dialogs s + 1"
    by (simp_all add: handleEnvironmentChange_def dialogs_def)
next
  let ?s = "handleEnvironmentChange k s"
  assume a: "Some k \<noteq> lastLoadedEnv s \<and> fst (createSDKFromHomePath kd h p w ?s) = None"
  then have "displayedSDKError (snd (createSDKFromHomePath kd h p w ?s))"
    by (simp add: createSDKFromHomePath_None_flag)
  then have "dialogs (snd (createSDKFromHomePath kd h p w ?s)) = budget (snd (createSDKFromHomePath kd h p w ?s))"
    by (rule dialogs_of_flag)
  with a show "dialogs (snd (createSDKFromHomePath kd h p w ?s)) = dialogs s + 1"
    by (simp add: budget_after_invalidation)
next
  let ?s = "handleEnvironmentChange k s"
  assume a: "Some k \<noteq> lastLoadedEnv s \<and> api_init s
        \<and> fst (findActiveSDK w ?s) = Inr None
        \<and> (\<forall>env. resolveEnvironment w (activeEnvironmentPath w) = Some env \<longrightarrow> envHasModularCfg w env)"
  then have "displayedSDKError (snd (findActiveSDK w ?s))"
    using findActiveSDK_reported [of ?s w] by simp
  then have "dialogs (snd (findActiveSDK w ?s)) = budget (snd (findActiveSDK w ?s))"
    by (rule dialogs_of_flag)
  with a show "dialogs (snd (findActiveSDK w ?s)) = dialogs s + 1"
    by (simp add: budget_after_invalidation)
next
  let ?s = "handleEnvironmentChange k s"
  assume a: "Some k \<noteq> lastLoadedEnv s \<and> api_init s \<and> activeSDK s = None
        \<and> fst (getActiveSDK w ?s) = Inr None
        \<and> (\<forall>env. resolveEnvironment w (activeEnvironmentPath w) = Some env \<longrightarrow> envHasModularCfg w env)"
  then have n: "activeSDK ?s = None" by simp
  from a have f: "fst (findActiveSDK w ?s) = Inr None"
    using getActiveSDK_miss(1) [OF n, of w] by simp
  with a have "displayedSDKError (snd (findActiveSDK w ?s))"
    using findActiveSDK_reported [of ?s w] by simp
  then have "dialogs (snd (findActiveSDK w ?s)) = budget (snd (findActiveSDK w ?s))"
    by (rule dialogs_of_flag)
  with a have "dialogs (snd (findActiveSDK w ?s)) = dialogs s + 1"
    by (simp add: budget_after_invalidation)
  then show "dialogs (snd (getActiveSDK w ?s)) = dialogs s + 1"
    using getActiveSDK_miss(2) [OF n, of w] by (simp add: dialogs_def)
next
  assume "api_init s \<and> tryGetMonorepoSDK w s = (None, s1)
        \<and> resolveEnvironment w (activeEnvironmentPath w) = Some env \<and> \<not> envHasModularCfg w env"
  then show "dialogs (snd (findActiveSDK w s)) = dialogs s1"
    by (simp add: findActiveSDK_def Let_def dialogs_def [of "emit es t" for es t] dialogs_def [of "t\<lparr>lastLoadedEnv := x\<rparr>" for t x] dialogs_def [of s1])
qed

lemma world0_no_environment:
  "\<forall>env. resolveEnvironment world0 (activeEnvironmentPath world0) = Some env \<longrightarrow> envHasModularCfg world0 env"
  by (simp add: world0_def)

lemma world0_resolution:
  assumes "api_init s"
  shows "fst (findActiveSDK world0 s) = Inr None"
  using assms by (simp add: findActiveSDK_def tryGetMonorepoSDK_def Let_def world0_def)

theorem dialogs_once_per_epoch_witness:
  "Some ''/other/bin/python'' \<noteq> lastLoadedEnv manager0
   \<and> invalidations [FindActiveSDK world0, GetActiveSDK world0, EnvironmentChange ''/other/bin/python'',
                     GetActiveSDK world0, FindActiveSDK world0] manager0 = 1
   \<and> dialogs (run [FindActiveSDK world0, GetActiveSDK world0, EnvironmentChange ''/other/bin/python'',
                    GetActiveSDK world0, FindActiveSDK world0] manager0) = 2
   \<and> dialogs (displaySDKError ''first'' (handleEnvironmentChange ''/other/bin/python'' manager0)) = 1
   \<and> dialogs (displaySDKError ''second''
        (displaySDKError ''first'' (handleEnvironmentChange ''/other/bin/python'' manager0))) = 1
   \<and> fst (createSDKFromHomePath Custom ''/sdk'' None world0
            (handleEnvironmentChange ''/other/bin/python'' manager0)) = None
   \<and> dialogs (snd (createSDKFromHomePath Custom ''/sdk'' None world0
            (handleEnvironmentChange ''/other/bin/python'' manager0))) = 1
   \<and> fst (findActiveSDK world0 (handleEnvironmentChange ''/other/bin/python'' manager0)) = Inr None
   \<and> dialogs (snd (findActiveSDK world0 (handleEnvironmentChange ''/other/bin/python'' manager0))) = 1
   \<and> fst (getActiveSDK world0 (handleEnvironmentChange ''/other/bin/python'' manager0)) = Inr None
   \<and> dialogs (snd (getActiveSDK world0 (handleEnvironmentChange ''/other/bin/python'' manager0))) = 1
   \<and> tryGetMonorepoSDK (world_wheel [''/venv/bin/mblack'']) manager0 = (None, manager0)
   \<and> resolveEnvironment (world_wheel [''/venv/bin/mblack''])
        (activeEnvironmentPath (world_wheel [''/venv/bin/mblack''])) = Some venv
   \<and> fst (findActiveSDK (world_wheel [''/venv/bin/mblack'']) manager0) = Inr None
   \<and> dialogs (snd (findActiveSDK (world_wheel [''/venv/bin/mblack'']) manager0)) = 0"
proof -
  let ?k = "''/other/bin/python''"
  let ?s = "handleEnvironmentChange ?k manager0"
  let ?cs = "[FindActiveSDK world0, GetActiveSDK world0, EnvironmentChange ?k,
              GetActiveSDK world0, FindActiveSDK world0]"
  let ?w = "world_wheel [''/venv/bin/mblack'']"
  note t = dialogs_once_per_epoch
  have a: "Some ?k \<noteq> lastLoadedEnv manager0" "api_init manager0" "activeSDK manager0 = None"
    by (simp_all add: manager0_def)
  have b: "dialogs manager0 = 0" "\<not> displayedSDKError manager0"
    by (simp_all add: manager0_def dialogs_def)
  have c: "invalidations ?cs manager0 = 1"
    by (simp add: eval_defs)
  have d: "2 \<le> dialogs (run ?cs manager0)"
    by (simp add: eval_defs dialogs_def)
  have e: "dialogs (run ?cs manager0) = 2"
    using conjunct1 [OF t [of ?cs manager0]] b c d by simp
  note h = mp [OF conjunct1 [OF conjunct2 [OF t [of _ manager0 ?k "''first''" "''second''"]]] a(1)]
  have f1: "fst (createSDKFromHomePath Custom ''/sdk'' None world0 ?s) = None"
    by (simp add: createSDKFromHomePath_def Let_def world0_def)
  note g1 = mp [OF conjunct1 [OF conjunct2 [OF conjunct2
                  [OF t [of _ manager0 ?k _ _ Custom "''/sdk''" None world0]]]]
                conjI [OF a(1) f1]]
  have ai: "api_init ?s" using a(2) by simp
  have f2: "fst (findActiveSDK world0 ?s) = Inr None"
    by (rule world0_resolution [OF ai])
  note g2 = mp [OF conjunct1 [OF conjunct2 [OF conjunct2 [OF conjunct2
                  [OF t [of _ manager0 ?k _ _ _ _ _ world0]]]]]
                conjI [OF a(1) conjI [OF a(2) conjI [OF f2 world0_no_environment]]]]
  have f3: "fst (getActiveSDK world0 ?s) = Inr None"
    using getActiveSDK_miss(1) [of ?s world0] a(3) f2 by simp
  note g3 = mp [OF conjunct1 [OF conjunct2 [OF conjunct2 [OF conjunct2 [OF conjunct2
                  [OF t [of _ manager0 ?k _ _ _ _ _ world0]]]]]]
                conjI [OF a(1) conjI [OF a(2) conjI [OF a(3) conjI [OF f3 world0_no_environment]]]]]
  have m: "tryGetMonorepoSDK ?w manager0 = (None, manager0)"
    by (simp add: tryGetMonorepoSDK_def world_wheel_fields)
  have r: "resolveEnvironment ?w (activeEnvironmentPath ?w) = Some venv"
    by (simp add: world_wheel_fields)
  have nc: "\<not> envHasModularCfg ?w venv"
    by (simp add: envHasModularCfg_def world_wheel_fields)
  note g4 = mp [OF conjunct2 [OF conjunct2 [OF conjunct2 [OF conjunct2 [OF conjunct2
                  [OF t [of _ manager0 _ _ _ _ _ _ ?w manager0 venv]]]]]]
                conjI [OF a(2) conjI [OF m conjI [OF r nc]]]]
  have f4: "fst (findActiveSDK ?w manager0) = Inr None"
    by (simp add: wheel_missing_resolution [OF a(2)])
  show ?thesis
    using a(1) c e h g1 f1 f2 g2 f3 g3 m r f4 g4 b by simp
qed

section \<open>The workspace-local source first\<close>

lemma newHomeSDK_kind:
  "newHomeSDK k ver h config p = Inr sdk \<Longrightarrow> \<exists>f. sdk = HomeSDK f h p \<and> kind f = k"
  by (auto simp: newHomeSDK_def bind_err_def split: sum.splits)

text \<open>
  Claim C3, as the claim has it: any failure of the workspace-local source falls
  through with no user-visible error. In a workspace whose \<^verbatim>\<open>.derived\<close> directory exists
  and holds no readable descriptor file, the source fails, the error dialog is shown,
  and resolution then falls through to the environment.
\<close>

theorem monorepo_failure_dialog_counterexample:
  "fst (tryGetMonorepoSDK (world_mono False) manager0) = None
   \<and> trace (snd (tryGetMonorepoSDK (world_mono False) manager0))
       = [FsStat ''/ws/.derived'', FsReadFile ''/ws/.derived/modular.cfg'',
          ShowErrorMessage ''Unable to read modular.cfg: ENOENT'']
   \<and> fst (findActiveSDK (world_mono False) manager0)
       = Inr (Some (home_sdk Environment (Str ''/sdk/bin/mojo-lldb'') ''/venv/share/max'' (Some ''/venv'')))"
  by (simp add: eval_defs)

text \<open>
  Claim C3, amended. On an initialised manager: when the single workspace folder has a
  \<^verbatim>\<open>.derived\<close> directory from which a descriptor can be built, \<open>findActiveSDK\<close> returns
  that descriptor, of kind Internal, after a stat, a read and the telemetry event and
  nothing else, whatever the active environment holds. Without exactly one workspace
  folder the source does nothing. A stat failure or an entry that is not a directory
  gives nothing and shows nothing. When the directory is there and the construction
  fails, because the descriptor file cannot be read, decoded or parsed or because a
  section is missing, the source gives nothing after reporting that failure through
  the deduplicated dialog: the flag is set afterwards and one dialog was added unless
  the flag was set before. Whenever the source gives nothing, \<open>findActiveSDK\<close> is the
  active-environment source run on the state the workspace-local source left: the
  environment is queried and resolved, and then comes the error for an unresolvable
  environment, the home-path construction at \<^verbatim>\<open>share/max\<close> under the prefix, or the
  packaged-distribution construction; with a valid descriptor file in the environment
  the result is the environment's descriptor.
\<close>

theorem findActiveSDK_workspace_first:
  assumes "api_init s"
  shows
   "(workspaceFolders w = Some [root]
       \<and> fs_stat w (path_join [root, ''.derived'']) = Some ty \<and> ty AND 2 \<noteq> 0
       \<and> fs_readFile w (path_join [path_join [root, ''.derived''], ''modular.cfg'']) = Inr bytes
       \<and> decode w bytes = Some contents \<and> ini_parse w contents = Some config
       \<and> readVersion config = Inr ver
       \<and> newHomeSDK Internal ver (path_join [root, ''.derived'']) config None = Inr sdk
      \<longrightarrow> findActiveSDK w s =
            (Inr (Some sdk),
             emit [FsStat (path_join [root, ''.derived'']),
                   FsReadFile (path_join [path_join [root, ''.derived''], ''modular.cfg'']),
                   SendTelemetry ''sdkLoaded'' ver Internal] s)
          \<and> kind (fields_of sdk) = Internal)
    \<and> ((\<forall>r. workspaceFolders w \<noteq> Some [r]) \<longrightarrow> tryGetMonorepoSDK w s = (None, s))
    \<and> (workspaceFolders w = Some [root]
         \<and> (fs_stat w (path_join [root, ''.derived'']) = None
             \<or> (\<exists>t. fs_stat w (path_join [root, ''.derived'']) = Some t \<and> t AND 2 = 0))
      \<longrightarrow> tryGetMonorepoSDK w s = (None, emit [FsStat (path_join [root, ''.derived''])] s))
    \<and> (workspaceFolders w = Some [root]
         \<and> fs_stat w (path_join [root, ''.derived'']) = Some ty \<and> ty AND 2 \<noteq> 0
         \<and> fs_readFile w (path_join [path_join [root, ''.derived''], ''modular.cfg'']) = Inl e
      \<longrightarrow> tryGetMonorepoSDK w s =
            (None, displaySDKError (msg_read @ e)
                     (emit [FsStat (path_join [root, ''.derived'']),
                            FsReadFile (path_join [path_join [root, ''.derived''], ''modular.cfg''])] s)))
    \<and> (workspaceFolders w = Some [root]
         \<and> fs_stat w (path_join [root, ''.derived'']) = Some ty \<and> ty AND 2 \<noteq> 0
         \<and> fs_readFile w (path_join [path_join [root, ''.derived''], ''modular.cfg'']) = Inr bytes
         \<and> decode w bytes = None
      \<longrightarrow> tryGetMonorepoSDK w s =
            (None, displaySDKError msg_decode
                     (emit [FsStat (path_join [root, ''.derived'']),
                            FsReadFile (path_join [path_join [root, ''.derived''], ''modular.cfg''])] s)))
    \<and> (workspaceFolders w = Some [root]
         \<and> fs_stat w (path_join [root, ''.derived'']) = Some ty \<and> ty AND 2 \<noteq> 0
         \<and> fs_readFile w (path_join [path_join [root, ''.derived''], ''modular.cfg'']) = Inr bytes
         \<and> decode w bytes = Some contents \<and> ini_parse w contents = None
      \<longrightarrow> tryGetMonorepoSDK w s =
            (None, displaySDKError msg_parse
                     (emit [FsStat (path_join [root, ''.derived'']),
                            FsReadFile (path_join [path_join [root, ''.derived''], ''modular.cfg''])] s)))
    \<and> (workspaceFolders w = Some [root]
         \<and> fs_stat w (path_join [root, ''.derived'']) = Some ty \<and> ty AND 2 \<noteq> 0
         \<and> fs_readFile w (path_join [path_join [root, ''.derived''], ''modular.cfg'']) = Inr bytes
         \<and> decode w bytes = Some contents \<and> ini_parse w contents = Some config
         \<and> readVersion config = Inl err
      \<longrightarrow> tryGetMonorepoSDK w s =
            (None, displaySDKError msg_key
                     (emit [FsStat (path_join [root, ''.derived'']),
                            FsReadFile (path_join [path_join [root, ''.derived''], ''modular.cfg''])] s)))
    \<and> (workspaceFolders w = Some [root]
         \<and> fs_stat w (path_join [root, ''.derived'']) = Some ty \<and> ty AND 2 \<noteq> 0
         \<and> fs_readFile w (path_join [path_join [root, ''.derived''], ''modular.cfg'']) = Inr bytes
         \<and> decode w bytes = Some contents \<and> ini_parse w contents = Some config
         \<and> readVersion config = Inr ver
         \<and> newHomeSDK Internal ver (path_join [root, ''.derived'']) config None = Inl err
      \<longrightarrow> tryGetMonorepoSDK w s =
            (None, displaySDKError msg_key
                     (emit [FsStat (path_join [root, ''.derived'']),
                            FsReadFile (path_join [path_join [root, ''.derived''], ''modular.cfg'']),
                            SendTelemetry ''sdkLoaded'' ver Internal] s)))
    \<and> (workspaceFolders w = Some [root]
         \<and> fs_stat w (path_join [root, ''.derived'']) = Some ty \<and> ty AND 2 \<noteq> 0
         \<and> fst (tryGetMonorepoSDK w s) = None
      \<longrightarrow> displayedSDKError (snd (tryGetMonorepoSDK w s))
          \<and> dialogs (snd (tryGetMonorepoSDK w s)) = dialogs s + (if displayedSDKError s then 0 else 1))
    \<and> (tryGetMonorepoSDK w s = (None, s1) \<longrightarrow>
         findActiveSDK w s =
           (case resolveEnvironment w (activeEnvironmentPath w) of
              None \<Rightarrow>
                (Inr None,
                 displaySDKError msg_env
                   ((emit [GetActiveEnvironmentPath, ResolveEnvironment (activeEnvironmentPath w)] s1)
                      \<lparr>lastLoadedEnv := Some (activeEnvironmentPath w)\<rparr>))
            | Some env \<Rightarrow>
                if fileExists w (path_join [sysPrefix env, ''share'', ''max'', ''modular.cfg''])
                then (Inr (fst (createSDKFromHomePath Environment
                                  (path_join [sysPrefix env, ''share'', ''max'']) (Some (sysPrefix env)) w
                                  (emit [FileExists (path_join [sysPrefix env, ''share'', ''max'', ''modular.cfg''])]
                                     ((emit [GetActiveEnvironmentPath,
                                             ResolveEnvironment (activeEnvironmentPath w)] s1)
                                        \<lparr>lastLoadedEnv := Some (activeEnvironmentPath w)\<rparr>)))),
                      snd (createSDKFromHomePath Environment
                                  (path_join [sysPrefix env, ''share'', ''max'']) (Some (sysPrefix env)) w
                                  (emit [FileExists (path_join [sysPrefix env, ''share'', ''max'', ''modular.cfg''])]
                                     ((emit [GetActiveEnvironmentPath,
                                             ResolveEnvironment (activeEnvironmentPath w)] s1)
                                        \<lparr>lastLoadedEnv := Some (activeEnvironmentPath w)\<rparr>))))
                else createSDKFromWheelEnv env w
                       (emit [FileExists (path_join [sysPrefix env, ''share'', ''max'', ''modular.cfg''])]
                          ((emit [GetActiveEnvironmentPath,
                                  ResolveEnvironment (activeEnvironmentPath w)] s1)
                             \<lparr>lastLoadedEnv := Some (activeEnvironmentPath w)\<rparr>))))
    \<and> (tryGetMonorepoSDK w s = (None, s1)
         \<and> resolveEnvironment w (activeEnvironmentPath w) = Some env
         \<and> fileExists w (path_join [sysPrefix env, ''share'', ''max'', ''modular.cfg''])
         \<and> fs_readFile w (path_join [path_join [sysPrefix env, ''share'', ''max''], ''modular.cfg'']) = Inr bytes
         \<and> decode w bytes = Some contents \<and> ini_parse w contents = Some config
         \<and> readVersion config = Inr ver
         \<and> newHomeSDK Environment ver (path_join [sysPrefix env, ''share'', ''max'']) config
               (Some (sysPrefix env)) = Inr sdk
      \<longrightarrow> fst (findActiveSDK w s) = Inr (Some sdk)
          \<and> trace (snd (findActiveSDK w s)) =
              trace s1 @ [GetActiveEnvironmentPath, ResolveEnvironment (activeEnvironmentPath w),
                          FileExists (path_join [sysPrefix env, ''share'', ''max'', ''modular.cfg'']),
                          FsReadFile (path_join [path_join [sysPrefix env, ''share'', ''max''], ''modular.cfg'']),
                          SendTelemetry ''sdkLoaded'' ver Environment])"
proof (intro conjI impI)
  assume a: "workspaceFolders w = Some [root]
       \<and> fs_stat w (path_join [root, ''.derived'']) = Some ty \<and> ty AND 2 \<noteq> 0
       \<and> fs_readFile w (path_join [path_join [root, ''.derived''], ''modular.cfg'']) = Inr bytes
       \<and> decode w bytes = Some contents \<and> ini_parse w contents = Some config
       \<and> readVersion config = Inr ver
       \<and> newHomeSDK Internal ver (path_join [root, ''.derived'']) config None = Inr sdk"
  with assms show "findActiveSDK w s =
            (Inr (Some sdk),
             emit [FsStat (path_join [root, ''.derived'']),
                   FsReadFile (path_join [path_join [root, ''.derived''], ''modular.cfg'']),
                   SendTelemetry ''sdkLoaded'' ver Internal] s)"
    by (simp add: findActiveSDK_def tryGetMonorepoSDK_def createSDKFromHomePath_def Let_def)
  from a show "kind (fields_of sdk) = Internal"
    using newHomeSDK_kind [of Internal ver "path_join [root, ''.derived'']" config None sdk] by auto
next
  assume "\<forall>r. workspaceFolders w \<noteq> Some [r]"
  then show "tryGetMonorepoSDK w s = (None, s)"
    by (cases "workspaceFolders w")
       (auto simp: tryGetMonorepoSDK_def length_Suc_conv)
next
  assume "workspaceFolders w = Some [root]
         \<and> (fs_stat w (path_join [root, ''.derived'']) = None
             \<or> (\<exists>t. fs_stat w (path_join [root, ''.derived'']) = Some t \<and> t AND 2 = 0))"
  then show "tryGetMonorepoSDK w s = (None, emit [FsStat (path_join [root, ''.derived''])] s)"
    by (auto simp: tryGetMonorepoSDK_def Let_def)
next
  assume "workspaceFolders w = Some [root]
         \<and> fs_stat w (path_join [root, ''.derived'']) = Some ty \<and> ty AND 2 \<noteq> 0
         \<and> fs_readFile w (path_join [path_join [root, ''.derived''], ''modular.cfg'']) = Inl e"
  then show "tryGetMonorepoSDK w s =
            (None, displaySDKError (msg_read @ e)
                     (emit [FsStat (path_join [root, ''.derived'']),
                            FsReadFile (path_join [path_join [root, ''.derived''], ''modular.cfg''])] s))"
    by (simp add: tryGetMonorepoSDK_def createSDKFromHomePath_def Let_def)
next
  assume "workspaceFolders w = Some [root]
         \<and> fs_stat w (path_join [root, ''.derived'']) = Some ty \<and> ty AND 2 \<noteq> 0
         \<and> fs_readFile w (path_join [path_join [root, ''.derived''], ''modular.cfg'']) = Inr bytes
         \<and> decode w bytes = None"
  then show "tryGetMonorepoSDK w s =
            (None, displaySDKError msg_decode
                     (emit [FsStat (path_join [root, ''.derived'']),
                            FsReadFile (path_join [path_join [root, ''.derived''], ''modular.cfg''])] s))"
    by (simp add: tryGetMonorepoSDK_def createSDKFromHomePath_def Let_def)
next
  assume "workspaceFolders w = Some [root]
         \<and> fs_stat w (path_join [root, ''.derived'']) = Some ty \<and> ty AND 2 \<noteq> 0
         \<and> fs_readFile w (path_join [path_join [root, ''.derived''], ''modular.cfg'']) = Inr bytes
         \<and> decode w bytes = Some contents \<and> ini_parse w contents = None"
  then show "tryGetMonorepoSDK w s =
            (None, displaySDKError msg_parse
                     (emit [FsStat (path_join [root, ''.derived'']),
                            FsReadFile (path_join [path_join [root, ''.derived''], ''modular.cfg''])] s))"
    by (simp add: tryGetMonorepoSDK_def createSDKFromHomePath_def Let_def)
next
  assume "workspaceFolders w = Some [root]
         \<and> fs_stat w (path_join [root, ''.derived'']) = Some ty \<and> ty AND 2 \<noteq> 0
         \<and> fs_readFile w (path_join [path_join [root, ''.derived''], ''modular.cfg'']) = Inr bytes
         \<and> decode w bytes = Some contents \<and> ini_parse w contents = Some config
         \<and> readVersion config = Inl err"
  then show "tryGetMonorepoSDK w s =
            (None, displaySDKError msg_key
                     (emit [FsStat (path_join [root, ''.derived'']),
                            FsReadFile (path_join [path_join [root, ''.derived''], ''modular.cfg''])] s))"
    by (simp add: tryGetMonorepoSDK_def createSDKFromHomePath_def Let_def)
next
  assume "workspaceFolders w = Some [root]
         \<and> fs_stat w (path_join [root, ''.derived'']) = Some ty \<and> ty AND 2 \<noteq> 0
         \<and> fs_readFile w (path_join [path_join [root, ''.derived''], ''modular.cfg'']) = Inr bytes
         \<and> decode w bytes = Some contents \<and> ini_parse w contents = Some config
         \<and> readVersion config = Inr ver
         \<and> newHomeSDK Internal ver (path_join [root, ''.derived'']) config None = Inl err"
  then show "tryGetMonorepoSDK w s =
            (None, displaySDKError msg_key
                     (emit [FsStat (path_join [root, ''.derived'']),
                            FsReadFile (path_join [path_join [root, ''.derived''], ''modular.cfg'']),
                            SendTelemetry ''sdkLoaded'' ver Internal] s))"
    by (simp add: tryGetMonorepoSDK_def createSDKFromHomePath_def Let_def)
next
  assume a: "workspaceFolders w = Some [root]
         \<and> fs_stat w (path_join [root, ''.derived'']) = Some ty \<and> ty AND 2 \<noteq> 0
         \<and> fst (tryGetMonorepoSDK w s) = None"
  then have e: "tryGetMonorepoSDK w s =
      createSDKFromHomePath Internal (path_join [root, ''.derived'']) None w
        (emit [FsStat (path_join [root, ''.derived''])] s)"
    by (simp add: tryGetMonorepoSDK_def Let_def)
  with a show f: "displayedSDKError (snd (tryGetMonorepoSDK w s))"
    using createSDKFromHomePath_None_flag
            [of Internal "path_join [root, ''.derived'']" None w "emit [FsStat (path_join [root, ''.derived''])] s"]
    by simp
  have "dialogs (snd (tryGetMonorepoSDK w s)) = budget (snd (tryGetMonorepoSDK w s))"
    using f by (rule dialogs_of_flag)
  also have "\<dots> = budget s" by (rule budget_tryGetMonorepoSDK)
  also have "\<dots> = dialogs s + (if displayedSDKError s then 0 else 1)" by (simp add: budget_def)
  finally show "dialogs (snd (tryGetMonorepoSDK w s)) = dialogs s + (if displayedSDKError s then 0 else 1)" .
next
  assume "tryGetMonorepoSDK w s = (None, s1)"
  with assms show "findActiveSDK w s =
           (case resolveEnvironment w (activeEnvironmentPath w) of
              None \<Rightarrow>
                (Inr None,
                 displaySDKError msg_env
                   ((emit [GetActiveEnvironmentPath, ResolveEnvironment (activeEnvironmentPath w)] s1)
                      \<lparr>lastLoadedEnv := Some (activeEnvironmentPath w)\<rparr>))
            | Some env \<Rightarrow>
                if fileExists w (path_join [sysPrefix env, ''share'', ''max'', ''modular.cfg''])
                then (Inr (fst (createSDKFromHomePath Environment
                                  (path_join [sysPrefix env, ''share'', ''max'']) (Some (sysPrefix env)) w
                                  (emit [FileExists (path_join [sysPrefix env, ''share'', ''max'', ''modular.cfg''])]
                                     ((emit [GetActiveEnvironmentPath,
                                             ResolveEnvironment (activeEnvironmentPath w)] s1)
                                        \<lparr>lastLoadedEnv := Some (activeEnvironmentPath w)\<rparr>)))),
                      snd (createSDKFromHomePath Environment
                                  (path_join [sysPrefix env, ''share'', ''max'']) (Some (sysPrefix env)) w
                                  (emit [FileExists (path_join [sysPrefix env, ''share'', ''max'', ''modular.cfg''])]
                                     ((emit [GetActiveEnvironmentPath,
                                             ResolveEnvironment (activeEnvironmentPath w)] s1)
                                        \<lparr>lastLoadedEnv := Some (activeEnvironmentPath w)\<rparr>))))
                else createSDKFromWheelEnv env w
                       (emit [FileExists (path_join [sysPrefix env, ''share'', ''max'', ''modular.cfg''])]
                          ((emit [GetActiveEnvironmentPath,
                                  ResolveEnvironment (activeEnvironmentPath w)] s1)
                             \<lparr>lastLoadedEnv := Some (activeEnvironmentPath w)\<rparr>)))"
    by (simp add: findActiveSDK_def envHasModularCfg_def Let_def split_def split: option.splits)
next
  assume a: "tryGetMonorepoSDK w s = (None, s1)
         \<and> resolveEnvironment w (activeEnvironmentPath w) = Some env
         \<and> fileExists w (path_join [sysPrefix env, ''share'', ''max'', ''modular.cfg''])
         \<and> fs_readFile w (path_join [path_join [sysPrefix env, ''share'', ''max''], ''modular.cfg'']) = Inr bytes
         \<and> decode w bytes = Some contents \<and> ini_parse w contents = Some config
         \<and> readVersion config = Inr ver
         \<and> newHomeSDK Environment ver (path_join [sysPrefix env, ''share'', ''max'']) config
               (Some (sysPrefix env)) = Inr sdk"
  with assms show "fst (findActiveSDK w s) = Inr (Some sdk)"
    by (simp add: findActiveSDK_def envHasModularCfg_def createSDKFromHomePath_def Let_def)
  from a assms show "trace (snd (findActiveSDK w s)) =
              trace s1 @ [GetActiveEnvironmentPath, ResolveEnvironment (activeEnvironmentPath w),
                          FileExists (path_join [sysPrefix env, ''share'', ''max'', ''modular.cfg'']),
                          FsReadFile (path_join [path_join [sysPrefix env, ''share'', ''max''], ''modular.cfg'']),
                          SendTelemetry ''sdkLoaded'' ver Environment]"
    by (simp add: findActiveSDK_def envHasModularCfg_def createSDKFromHomePath_def Let_def)
qed

lemma example_paths:
  "path_join [''/ws'', ''.derived''] = ''/ws/.derived''"
  "path_join [''/ws/.derived'', ''modular.cfg''] = ''/ws/.derived/modular.cfg''"
  "path_join [''/venv'', ''share'', ''max''] = ''/venv/share/max''"
  "path_join [''/venv/share/max'', ''modular.cfg''] = ''/venv/share/max/modular.cfg''"
  "path_join [''/venv'', ''share'', ''max'', ''modular.cfg''] = ''/venv/share/max/modular.cfg''"
  by (simp_all add: path_join_def path_normalize_def)

lemma world_derived_fields:
  "workspaceFolders (world_derived dec prs) = Some [''/ws'']"
  "fs_stat (world_derived dec prs) ''/ws/.derived'' = Some 2"
  "fs_readFile (world_derived dec prs) ''/ws/.derived/modular.cfg'' = Inr []"
  "decode (world_derived dec prs) = dec"
  "ini_parse (world_derived dec prs) = prs"
  by (simp_all add: world_derived_def world_mono_def world_env_def world0_def)

lemma world_mono_fields:
  "workspaceFolders (world_mono c) = Some [''/ws'']"
  "fs_stat (world_mono c) ''/ws/.derived'' = Some 2"
  "fs_readFile (world_mono c) ''/ws/.derived/modular.cfg'' = (if c then Inr [] else Inl ''ENOENT'')"
  "decode (world_mono c) [] = Some []"
  "ini_parse (world_mono c) [] = Some full_config"
  by (simp_all add: world_mono_def world_env_def world0_def)

lemma world_single_root_fields:
  "workspaceFolders world_single_root = Some [''/ws'']"
  "fs_stat world_single_root p = None"
  "activeEnvironmentPath world_single_root = ''/venv/bin/python''"
  "resolveEnvironment world_single_root ''/venv/bin/python'' = Some venv"
  "fileExists world_single_root ''/venv/share/max/modular.cfg''"
  "fs_readFile world_single_root ''/venv/share/max/modular.cfg'' = Inr []"
  "decode world_single_root [] = Some []"
  "ini_parse world_single_root [] = Some full_config"
  by (simp_all add: world_single_root_def world_env_def world0_def)

lemma full_config_builds:
  "readVersion full_config = Inr (Str ''25.1.0'')"
  "newHomeSDK k (Str ''25.1.0'') h full_config p = Inr (home_sdk k (Str ''/sdk/bin/mojo-lldb'') h p)"
  by (simp_all add: full_config_def paths_section_def home_sdk_def readVersion_def newHomeSDK_def
        mojoMax_def bind_err_def)

lemma broken_configs:
  "readVersion [] = Inl TypeError"
  "readVersion [(''max'', Obj [])] = Inr (Str ''0.0.0'')"
  "newHomeSDK k v h [(''max'', Obj [])] p = Inl TypeError"
  by (simp_all add: readVersion_def newHomeSDK_def mojoMax_def bind_err_def)

theorem findActiveSDK_workspace_first_witness:
  "api_init manager0
   \<and> findActiveSDK (world_mono True) manager0 =
        (Inr (Some (home_sdk Internal (Str ''/sdk/bin/mojo-lldb'') ''/ws/.derived'' None)),
         emit [FsStat ''/ws/.derived'', FsReadFile ''/ws/.derived/modular.cfg'',
               SendTelemetry ''sdkLoaded'' (Str ''25.1.0'') Internal] manager0)
   \<and> tryGetMonorepoSDK world0 manager0 = (None, manager0)
   \<and> tryGetMonorepoSDK world_single_root manager0 = (None, emit [FsStat ''/ws/.derived''] manager0)
   \<and> tryGetMonorepoSDK (world_mono False) manager0 =
        (None, displaySDKError (msg_read @ ''ENOENT'')
                 (emit [FsStat ''/ws/.derived'', FsReadFile ''/ws/.derived/modular.cfg''] manager0))
   \<and> tryGetMonorepoSDK (world_derived (\<lambda>b. None) (\<lambda>c. Some full_config)) manager0 =
        (None, displaySDKError msg_decode
                 (emit [FsStat ''/ws/.derived'', FsReadFile ''/ws/.derived/modular.cfg''] manager0))
   \<and> tryGetMonorepoSDK (world_derived (\<lambda>b. Some []) (\<lambda>c. None)) manager0 =
        (None, displaySDKError msg_parse
                 (emit [FsStat ''/ws/.derived'', FsReadFile ''/ws/.derived/modular.cfg''] manager0))
   \<and> tryGetMonorepoSDK (world_derived (\<lambda>b. Some []) (\<lambda>c. Some [])) manager0 =
        (None, displaySDKError msg_key
                 (emit [FsStat ''/ws/.derived'', FsReadFile ''/ws/.derived/modular.cfg''] manager0))
   \<and> tryGetMonorepoSDK (world_derived (\<lambda>b. Some []) (\<lambda>c. Some [(''max'', Obj [])])) manager0 =
        (None, displaySDKError msg_key
                 (emit [FsStat ''/ws/.derived'', FsReadFile ''/ws/.derived/modular.cfg'',
                        SendTelemetry ''sdkLoaded'' (Str ''0.0.0'') Internal] manager0))
   \<and> displayedSDKError (snd (tryGetMonorepoSDK (world_mono False) manager0))
   \<and> dialogs (snd (tryGetMonorepoSDK (world_mono False) manager0)) = 1
   \<and> fst (findActiveSDK world_single_root manager0)
       = Inr (Some (home_sdk Environment (Str ''/sdk/bin/mojo-lldb'') ''/venv/share/max'' (Some ''/venv'')))
   \<and> trace (snd (findActiveSDK world_single_root manager0))
       = [FsStat ''/ws/.derived'', GetActiveEnvironmentPath, ResolveEnvironment ''/venv/bin/python'',
          FileExists ''/venv/share/max/modular.cfg'', FsReadFile ''/venv/share/max/modular.cfg'',
          SendTelemetry ''sdkLoaded'' (Str ''25.1.0'') Environment]
   \<and> findActiveSDK world0 manager0 =
        (Inr None, displaySDKError msg_env
           ((emit [GetActiveEnvironmentPath, ResolveEnvironment ''/venv/bin/python''] manager0)
              \<lparr>lastLoadedEnv := Some ''/venv/bin/python''\<rparr>))"
proof -
  have a: "api_init manager0" by (simp add: manager0_def)
  note T = findActiveSDK_workspace_first [OF a]
  note R1 = conjunct2 [OF T]
  note R2 = conjunct2 [OF R1]
  note R3 = conjunct2 [OF R2]
  note R4 = conjunct2 [OF R3]
  note R5 = conjunct2 [OF R4]
  note R6 = conjunct2 [OF R5]
  note R7 = conjunct2 [OF R6]
  note R8 = conjunct2 [OF R7]
  note R9 = conjunct2 [OF R8]
  have d0: "dialogs manager0 = 0" "\<not> displayedSDKError manager0" "trace manager0 = []"
    by (simp_all add: dialogs_def manager0_def)
  have two: "(2::nat) AND 2 \<noteq> 0" by simp
  have h1: "workspaceFolders (world_mono True) = Some [''/ws'']
       \<and> fs_stat (world_mono True) (path_join [''/ws'', ''.derived'']) = Some 2 \<and> (2::nat) AND 2 \<noteq> 0
       \<and> fs_readFile (world_mono True) (path_join [path_join [''/ws'', ''.derived''], ''modular.cfg'']) = Inr []
       \<and> decode (world_mono True) [] = Some [] \<and> ini_parse (world_mono True) [] = Some full_config
       \<and> readVersion full_config = Inr (Str ''25.1.0'')
       \<and> newHomeSDK Internal (Str ''25.1.0'') (path_join [''/ws'', ''.derived'']) full_config None
            = Inr (home_sdk Internal (Str ''/sdk/bin/mojo-lldb'') ''/ws/.derived'' None)"
    by (simp add: example_paths world_mono_fields full_config_builds)
  note t1 = conjunct1 [OF mp [OF conjunct1 [OF T] h1]]
  have h2: "\<forall>r. workspaceFolders world0 \<noteq> Some [r]" by (simp add: world0_def)
  note t2 = mp [OF conjunct1 [OF R1] h2]
  have h3: "workspaceFolders world_single_root = Some [''/ws'']
         \<and> (fs_stat world_single_root (path_join [''/ws'', ''.derived'']) = None
             \<or> (\<exists>t. fs_stat world_single_root (path_join [''/ws'', ''.derived'']) = Some t \<and> t AND 2 = 0))"
    by (simp add: world_single_root_fields)
  note t3 = mp [OF conjunct1 [OF R2] h3]
  have h4: "workspaceFolders (world_mono False) = Some [''/ws'']
         \<and> fs_stat (world_mono False) (path_join [''/ws'', ''.derived'']) = Some 2 \<and> (2::nat) AND 2 \<noteq> 0
         \<and> fs_readFile (world_mono False) (path_join [path_join [''/ws'', ''.derived''], ''modular.cfg''])
              = Inl ''ENOENT''"
    by (simp add: example_paths world_mono_fields)
  note t4 = mp [OF conjunct1 [OF R3] h4]
  have h5: "workspaceFolders (world_derived (\<lambda>b. None) (\<lambda>c. Some full_config)) = Some [''/ws'']
         \<and> fs_stat (world_derived (\<lambda>b. None) (\<lambda>c. Some full_config)) (path_join [''/ws'', ''.derived'']) = Some 2
         \<and> (2::nat) AND 2 \<noteq> 0
         \<and> fs_readFile (world_derived (\<lambda>b. None) (\<lambda>c. Some full_config))
              (path_join [path_join [''/ws'', ''.derived''], ''modular.cfg'']) = Inr []
         \<and> decode (world_derived (\<lambda>b. None) (\<lambda>c. Some full_config)) [] = None"
    by (simp add: example_paths world_derived_fields)
  note t5 = mp [OF conjunct1 [OF R4] h5]
  have h6: "workspaceFolders (world_derived (\<lambda>b. Some []) (\<lambda>c. None)) = Some [''/ws'']
         \<and> fs_stat (world_derived (\<lambda>b. Some []) (\<lambda>c. None)) (path_join [''/ws'', ''.derived'']) = Some 2
         \<and> (2::nat) AND 2 \<noteq> 0
         \<and> fs_readFile (world_derived (\<lambda>b. Some []) (\<lambda>c. None))
              (path_join [path_join [''/ws'', ''.derived''], ''modular.cfg'']) = Inr []
         \<and> decode (world_derived (\<lambda>b. Some []) (\<lambda>c. None)) [] = Some []
         \<and> ini_parse (world_derived (\<lambda>b. Some []) (\<lambda>c. None)) [] = None"
    by (simp add: example_paths world_derived_fields)
  note t6 = mp [OF conjunct1 [OF R5] h6]
  have h7: "workspaceFolders (world_derived (\<lambda>b. Some []) (\<lambda>c. Some [])) = Some [''/ws'']
         \<and> fs_stat (world_derived (\<lambda>b. Some []) (\<lambda>c. Some [])) (path_join [''/ws'', ''.derived'']) = Some 2
         \<and> (2::nat) AND 2 \<noteq> 0
         \<and> fs_readFile (world_derived (\<lambda>b. Some []) (\<lambda>c. Some []))
              (path_join [path_join [''/ws'', ''.derived''], ''modular.cfg'']) = Inr []
         \<and> decode (world_derived (\<lambda>b. Some []) (\<lambda>c. Some [])) [] = Some []
         \<and> ini_parse (world_derived (\<lambda>b. Some []) (\<lambda>c. Some [])) [] = Some []
         \<and> readVersion [] = Inl TypeError"
    by (simp add: example_paths world_derived_fields broken_configs)
  note t7 = mp [OF conjunct1 [OF R6] h7]
  have h8: "workspaceFolders (world_derived (\<lambda>b. Some []) (\<lambda>c. Some [(''max'', Obj [])])) = Some [''/ws'']
         \<and> fs_stat (world_derived (\<lambda>b. Some []) (\<lambda>c. Some [(''max'', Obj [])]))
              (path_join [''/ws'', ''.derived'']) = Some 2
         \<and> (2::nat) AND 2 \<noteq> 0
         \<and> fs_readFile (world_derived (\<lambda>b. Some []) (\<lambda>c. Some [(''max'', Obj [])]))
              (path_join [path_join [''/ws'', ''.derived''], ''modular.cfg'']) = Inr []
         \<and> decode (world_derived (\<lambda>b. Some []) (\<lambda>c. Some [(''max'', Obj [])])) [] = Some []
         \<and> ini_parse (world_derived (\<lambda>b. Some []) (\<lambda>c. Some [(''max'', Obj [])])) [] = Some [(''max'', Obj [])]
         \<and> readVersion [(''max'', Obj [])] = Inr (Str ''0.0.0'')
         \<and> newHomeSDK Internal (Str ''0.0.0'') (path_join [''/ws'', ''.derived'']) [(''max'', Obj [])] None
              = Inl TypeError"
    by (simp add: example_paths world_derived_fields broken_configs)
  note t8 = mp [OF conjunct1 [OF R7] h8]
  have f9: "fst (tryGetMonorepoSDK (world_mono False) manager0) = None"
    using t4 by (simp add: example_paths)
  have h9: "workspaceFolders (world_mono False) = Some [''/ws'']
         \<and> fs_stat (world_mono False) (path_join [''/ws'', ''.derived'']) = Some 2 \<and> (2::nat) AND 2 \<noteq> 0
         \<and> fst (tryGetMonorepoSDK (world_mono False) manager0) = None"
    using f9 by (simp add: example_paths world_mono_fields)
  note t9 = mp [OF conjunct1 [OF R8] h9]
  have m10: "tryGetMonorepoSDK world_single_root manager0 = (None, emit [FsStat ''/ws/.derived''] manager0)"
    using t3 by (simp add: example_paths)
  have h11: "tryGetMonorepoSDK world_single_root manager0 = (None, emit [FsStat ''/ws/.derived''] manager0)
         \<and> resolveEnvironment world_single_root (activeEnvironmentPath world_single_root) = Some venv
         \<and> fileExists world_single_root (path_join [sysPrefix venv, ''share'', ''max'', ''modular.cfg''])
         \<and> fs_readFile world_single_root
              (path_join [path_join [sysPrefix venv, ''share'', ''max''], ''modular.cfg'']) = Inr []
         \<and> decode world_single_root [] = Some [] \<and> ini_parse world_single_root [] = Some full_config
         \<and> readVersion full_config = Inr (Str ''25.1.0'')
         \<and> newHomeSDK Environment (Str ''25.1.0'') (path_join [sysPrefix venv, ''share'', ''max'']) full_config
               (Some (sysPrefix venv))
              = Inr (home_sdk Environment (Str ''/sdk/bin/mojo-lldb'') ''/venv/share/max'' (Some ''/venv''))"
    using m10 by (simp add: example_paths world_single_root_fields full_config_builds venv_def)
  note t11 = mp [OF conjunct2 [OF R9] h11]
  have m0: "tryGetMonorepoSDK world0 manager0 = (None, manager0)" by (rule t2)
  note t10 = mp [OF conjunct1 [OF R9] m0]
  have e0: "resolveEnvironment world0 p = None"
           "activeEnvironmentPath world0 = ''/venv/bin/python''" for p
    by (simp_all add: world0_def)
  have c10: "findActiveSDK world0 manager0 =
        (Inr None, displaySDKError msg_env
           ((emit [GetActiveEnvironmentPath, ResolveEnvironment ''/venv/bin/python''] manager0)
              \<lparr>lastLoadedEnv := Some ''/venv/bin/python''\<rparr>))"
    using t10 by (simp add: e0)
  have c11: "trace (snd (findActiveSDK world_single_root manager0))
       = [FsStat ''/ws/.derived'', GetActiveEnvironmentPath, ResolveEnvironment ''/venv/bin/python'',
          FileExists ''/venv/share/max/modular.cfg'', FsReadFile ''/venv/share/max/modular.cfg'',
          SendTelemetry ''sdkLoaded'' (Str ''25.1.0'') Environment]"
    using conjunct2 [OF t11] d0
    by (simp add: example_paths world_single_root_fields venv_def)
  have c9: "dialogs (snd (tryGetMonorepoSDK (world_mono False) manager0)) = 1"
    using conjunct2 [OF t9] d0 by simp
  show ?thesis
  proof (intro conjI)
    show "api_init manager0" by (rule a)
    show "findActiveSDK (world_mono True) manager0 =
        (Inr (Some (home_sdk Internal (Str ''/sdk/bin/mojo-lldb'') ''/ws/.derived'' None)),
         emit [FsStat ''/ws/.derived'', FsReadFile ''/ws/.derived/modular.cfg'',
               SendTelemetry ''sdkLoaded'' (Str ''25.1.0'') Internal] manager0)"
      using t1 by (simp add: example_paths)
    show "tryGetMonorepoSDK world0 manager0 = (None, manager0)" by (rule t2)
    show "tryGetMonorepoSDK world_single_root manager0 = (None, emit [FsStat ''/ws/.derived''] manager0)"
      by (rule m10)
    show "tryGetMonorepoSDK (world_mono False) manager0 =
        (None, displaySDKError (msg_read @ ''ENOENT'')
                 (emit [FsStat ''/ws/.derived'', FsReadFile ''/ws/.derived/modular.cfg''] manager0))"
      using t4 by (simp add: example_paths)
    show "tryGetMonorepoSDK (world_derived (\<lambda>b. None) (\<lambda>c. Some full_config)) manager0 =
        (None, displaySDKError msg_decode
                 (emit [FsStat ''/ws/.derived'', FsReadFile ''/ws/.derived/modular.cfg''] manager0))"
      using t5 by (simp add: example_paths)
    show "tryGetMonorepoSDK (world_derived (\<lambda>b. Some []) (\<lambda>c. None)) manager0 =
        (None, displaySDKError msg_parse
                 (emit [FsStat ''/ws/.derived'', FsReadFile ''/ws/.derived/modular.cfg''] manager0))"
      using t6 by (simp add: example_paths)
    show "tryGetMonorepoSDK (world_derived (\<lambda>b. Some []) (\<lambda>c. Some [])) manager0 =
        (None, displaySDKError msg_key
                 (emit [FsStat ''/ws/.derived'', FsReadFile ''/ws/.derived/modular.cfg''] manager0))"
      using t7 by (simp add: example_paths)
    show "tryGetMonorepoSDK (world_derived (\<lambda>b. Some []) (\<lambda>c. Some [(''max'', Obj [])])) manager0 =
        (None, displaySDKError msg_key
                 (emit [FsStat ''/ws/.derived'', FsReadFile ''/ws/.derived/modular.cfg'',
                        SendTelemetry ''sdkLoaded'' (Str ''0.0.0'') Internal] manager0))"
      using t8 by (simp add: example_paths)
    show "displayedSDKError (snd (tryGetMonorepoSDK (world_mono False) manager0))"
      by (rule conjunct1 [OF t9])
    show "dialogs (snd (tryGetMonorepoSDK (world_mono False) manager0)) = 1" by (rule c9)
    show "fst (findActiveSDK world_single_root manager0)
       = Inr (Some (home_sdk Environment (Str ''/sdk/bin/mojo-lldb'') ''/venv/share/max'' (Some ''/venv'')))"
      by (rule conjunct1 [OF t11])
    show "trace (snd (findActiveSDK world_single_root manager0))
       = [FsStat ''/ws/.derived'', GetActiveEnvironmentPath, ResolveEnvironment ''/venv/bin/python'',
          FileExists ''/venv/share/max/modular.cfg'', FsReadFile ''/venv/share/max/modular.cfg'',
          SendTelemetry ''sdkLoaded'' (Str ''25.1.0'') Environment]"
      by (rule c11)
    show "findActiveSDK world0 manager0 =
        (Inr None, displaySDKError msg_env
           ((emit [GetActiveEnvironmentPath, ResolveEnvironment ''/venv/bin/python''] manager0)
              \<lparr>lastLoadedEnv := Some ''/venv/bin/python''\<rparr>))"
      by (rule c10)
  qed
qed

end
